theory Spec2Isabelle
  imports Main "HOL-Library.Char_ord" "HOL-Library.List_Lexorder" "HOL-Library.Product_Lexorder"
    "HOL-Library.Sublist"
begin

section \<open>Strings of the script\<close>

text \<open>
  A Python \<open>str\<close> is modelled as a \<open>string\<close>: every \<open>char\<close> is one code point
  below 256. In that range \<open>\\d\<close> is exactly \<open>0\<close> to \<open>9\<close>, and \<open>\\s\<close> as well as
  \<open>str.strip\<close> use the same white space test: the code points 9 to 13, 28 to 32, 133
  and 160. A character class is the list of its members.
\<close>

definition space_chars :: string where
  "space_chars = [CHR 0x09, CHR 0x0A, CHR 0x0B, CHR 0x0C, CHR 0x0D, CHR 0x1C, CHR 0x1D,
     CHR 0x1E, CHR 0x1F, CHR 0x20, CHR 0x85, CHR 0xA0]"

definition upper_chars :: string where
  "upper_chars = ''ABCDEFGHIJKLMNOPQRSTUVWXYZ''"

definition lower_chars :: string where
  "lower_chars = ''abcdefghijklmnopqrstuvwxyz''"

definition isspace :: "char \<Rightarrow> bool" where
  "isspace c = (c \<in> set space_chars)"

definition isdigit :: "char \<Rightarrow> bool" where
  "isdigit c = (c \<in> set ''0123456789'')"

definition isupper :: "char \<Rightarrow> bool" where
  "isupper c = (c \<in> set upper_chars)"

definition islower :: "char \<Rightarrow> bool" where
  "islower c = (c \<in> set lower_chars)"

definition anychar :: "char \<Rightarrow> bool" where
  "anychar c = True"

text \<open>\<open>s.find(pat)\<close>: the index of the first occurrence, \<open>None\<close> for Python's \<open>-1\<close>.\<close>

fun startswith :: "string \<Rightarrow> string \<Rightarrow> bool" where
  "startswith [] s = True"
| "startswith (c # l) [] = False"
| "startswith (c # l) (x # s) = (if x = c then startswith l s else False)"

fun str_find :: "string \<Rightarrow> string \<Rightarrow> nat option" where
  "str_find pat [] = (if pat = [] then Some 0 else None)"
| "str_find pat (c # s) =
     (if startswith pat (c # s) then Some 0 else map_option Suc (str_find pat s))"


text \<open>\<open>s[a:b]\<close> for indices that are not negative; empty when \<open>b \<le> a\<close>.\<close>

definition slice :: "string \<Rightarrow> nat \<Rightarrow> nat \<Rightarrow> string" where
  "slice s a b = take (b - a) (drop a s)"

definition str_strip :: "string \<Rightarrow> string" where
  "str_strip s = rev (dropWhile isspace (rev (dropWhile isspace s)))"

text \<open>\<open>sep.join(xs)\<close>.\<close>

fun str_join :: "string \<Rightarrow> string list \<Rightarrow> string" where
  "str_join sep [] = []"
| "str_join sep [x] = x"
| "str_join sep (x # y # ys) = x @ sep @ str_join sep (y # ys)"

text \<open>
  \<open>s.title()\<close>: a cased character that follows an uncased one is put in upper case, one
  that follows a cased one in lower case. The script only calls it on a label captured by
  \<open>[A-Z][A-Z ]*\<close>, so the cased characters are the ASCII letters.
\<close>

definition to_lower :: "char \<Rightarrow> char" where
  "to_lower c = (case map_of (zip upper_chars lower_chars) c of Some l \<Rightarrow> l | None \<Rightarrow> c)"

definition to_upper :: "char \<Rightarrow> char" where
  "to_upper c = (case map_of (zip lower_chars upper_chars) c of Some u \<Rightarrow> u | None \<Rightarrow> c)"

fun title_from :: "bool \<Rightarrow> string \<Rightarrow> string" where
  "title_from prev [] = []"
| "title_from prev (c # s) =
     (if islower c then (if prev then c else to_upper c) # title_from True s
      else if isupper c then (if prev then to_lower c else c) # title_from True s
      else c # title_from False s)"

definition str_title :: "string \<Rightarrow> string" where
  "str_title s = title_from False s"

text \<open>\<open>str(n)\<close> for a number that is not negative.\<close>

definition digit_char :: "nat \<Rightarrow> char" where
  "digit_char n = ''0123456789'' ! n"

function str_of_nat :: "nat \<Rightarrow> string" where
  "str_of_nat n =
     (if n < 10 then [digit_char n] else str_of_nat (n div 10) @ [digit_char (n mod 10)])"
  by pat_completeness auto
termination
  by (relation "measure id") auto

declare str_of_nat.simps [simp del]

section \<open>Regular expressions with backtracking\<close>

text \<open>
  The patterns of the script use literals, character classes repeated greedily or lazily,
  a class repeated a fixed number of times, alternatives (tried in order) and capture
  groups that are not nested. A pattern is the list of its items; \<open>GOpen\<close> and
  \<open>GClose\<close> are the parentheses of a capture group, \<open>Alt a []\<close> is \<open>(?:a)?\<close>.
\<close>

datatype rx =
    Lit string
  | One "char \<Rightarrow> bool"
  | Star "char \<Rightarrow> bool" bool
  | Alt "rx list" "rx list"
  | GOpen
  | GClose

text \<open>
  \<open>rmatch p opens groups s\<close> matches the pattern at the start of \<open>s\<close> as the backtracking
  matcher of \<open>re\<close> does and returns the captured groups with the rest of the input,
  \<open>None\<close> when there is no match. \<open>Star c True\<close> is \<open>c*\<close> (longest first),
  \<open>Star c False\<close> is \<open>c*?\<close> (shortest first); \<open>c+\<close> is \<open>cc*\<close> and \<open>c{4}\<close> is
  \<open>cccc\<close>. \<open>opens\<close> holds, for each group that is open, the text it has taken so far,
  last character first.
\<close>

definition take_char :: "char \<Rightarrow> string list \<Rightarrow> string list" where
  "take_char x os = map ((#) x) os"

function rmatch :: "rx list \<Rightarrow> string list \<Rightarrow> string list \<Rightarrow> string \<Rightarrow> (string list \<times> string) option" where
  "rmatch [] os gs s = Some (gs, s)"
| "rmatch (Lit [] # r) os gs s = rmatch r os gs s"
| "rmatch (Lit (c # l) # r) os gs [] = None"
| "rmatch (Lit (c # l) # r) os gs (x # s) =
     (if x = c then rmatch (Lit l # r) (take_char x os) gs s else None)"
| "rmatch (One c # r) os gs [] = None"
| "rmatch (One c # r) os gs (x # s) =
     (if c x then rmatch r (take_char x os) gs s else None)"
| "rmatch (Star c True # r) os gs [] = rmatch r os gs []"
| "rmatch (Star c True # r) os gs (x # s) =
     (if c x then
        (let res = rmatch (Star c True # r) (take_char x os) gs s
         in if Option.is_none res then rmatch r os gs (x # s) else res)
      else rmatch r os gs (x # s))"
| "rmatch (Star c False # r) os gs [] = rmatch r os gs []"
| "rmatch (Star c False # r) os gs (x # s) =
     (let res = rmatch r os gs (x # s)
      in if Option.is_none res
         then (if c x then rmatch (Star c False # r) (take_char x os) gs s else None)
         else res)"
| "rmatch (Alt a b # r) os gs s =
     (let res = rmatch (a @ r) os gs s
      in if Option.is_none res then rmatch (b @ r) os gs s else res)"
| "rmatch (GOpen # r) os gs s = rmatch r ([] # os) gs s"
| "rmatch (GClose # r) [] gs s = rmatch r [] gs s"
| "rmatch (GClose # r) (g # os) gs s = rmatch r os (gs @ [rev g]) s"
  by pat_completeness auto
termination
  by (relation "measures [\<lambda>(p, os, gs, s). size_list size p, \<lambda>(p, os, gs, s). length s]")
     auto

text \<open>\<open>c+\<close>, \<open>\\d{2}\<close> and \<open>\\d{4}\<close>.\<close>

definition rx_plus :: "(char \<Rightarrow> bool) \<Rightarrow> rx list" where
  "rx_plus c = [One c, Star c True]"

definition digits2 :: "rx list" where
  "digits2 = [One isdigit, One isdigit]"

definition digits4 :: "rx list" where
  "digits4 = [One isdigit, One isdigit, One isdigit, One isdigit]"

text \<open>\<open>m.group(n)\<close> of a match whose groups all took part.\<close>

definition group :: "string list \<Rightarrow> nat \<Rightarrow> string" where
  "group gs n = (if 0 < n \<and> n \<le> length gs then gs ! (n - 1) else [])"

text \<open>The groups and the rest of the input of a match.\<close>

definition match_groups :: "(string list \<times> string) option \<Rightarrow> string list" where
  "match_groups res = (case res of Some m \<Rightarrow> fst m | None \<Rightarrow> [])"

definition match_rest :: "(string list \<times> string) option \<Rightarrow> string" where
  "match_rest res = (case res of Some m \<Rightarrow> snd m | None \<Rightarrow> [])"

text \<open>\<open>re.search\<close>: the groups of the leftmost match.\<close>

fun re_search :: "rx list \<Rightarrow> string \<Rightarrow> string list option" where
  "re_search p [] = map_option fst (rmatch p [] [] [])"
| "re_search p (x # s) =
     (let res = rmatch p [] [] (x # s)
      in if Option.is_none res then re_search p s else map_option fst res)"

text \<open>
  \<open>re.sub\<close> with a constant replacement and \<open>finditer\<close>, for patterns that match no
  empty string (every pattern they are used with starts with a literal or a class taken at
  least once): the scan goes on behind each match.
\<close>

function re_sub :: "rx list \<Rightarrow> string \<Rightarrow> string \<Rightarrow> string" where
  "re_sub p repl [] = []"
| "re_sub p repl (x # s) =
     (let res = rmatch p [] [] (x # s)
      in if Option.is_none res \<or> length s < length (match_rest res)
         then x # re_sub p repl s
         else repl @ re_sub p repl (match_rest res))"
  by pat_completeness auto
termination
  by (relation "measure (\<lambda>(p, repl, s). length s)") auto

function re_finditer :: "rx list \<Rightarrow> string \<Rightarrow> string list list" where
  "re_finditer p [] = []"
| "re_finditer p (x # s) =
     (let res = rmatch p [] [] (x # s)
      in if Option.is_none res \<or> length s < length (match_rest res)
         then re_finditer p s
         else match_groups res # re_finditer p (match_rest res))"
  by pat_completeness auto
termination
  by (relation "measure (\<lambda>(p, s). length s)") auto

section \<open>Description extractor\<close>

definition tag_pattern :: "rx list" where
  "tag_pattern = [Lit ''<''] @ rx_plus (\<lambda>c. c \<noteq> CHR ''>'') @ [Lit ''>'']"

definition space_pattern :: "rx list" where
  "space_pattern = rx_plus isspace"

definition ticker_pattern :: "rx list" where
  "ticker_pattern =
     [Lit ''Total Tickers'', Star isspace True, Lit '':'', Star isspace True, GOpen] @
     rx_plus isdigit @ [GClose]"

text \<open>The class \<open>[-\\u2013]\<close>: the hyphen or the code point 0x2013.\<close>

definition isdash :: "char \<Rightarrow> bool" where
  "isdash c = (c = CHR ''-'' \<or> (of_char c :: nat) = 0x2013)"

definition label_rest :: "char \<Rightarrow> bool" where
  "label_rest c = (isupper c \<or> c = CHR '' '')"

definition score_label :: "rx list" where
  "score_label =
     [Star isspace True, Lit '':'', Star isspace True, GOpen] @ rx_plus isdigit @
     [GClose, Lit ''/100'', Star isspace True, One isdash, Star isspace True,
      GOpen, One isupper, Star label_rest True, GClose]"

definition stock_pattern :: "rx list" where
  "stock_pattern = Lit ''Stock Market'' # score_label"

definition crypto_pattern :: "rx list" where
  "crypto_pattern = Lit ''Crypto'' # Alt (rx_plus isspace @ [Lit ''Market'']) [] # score_label"

definition trades_pattern :: "rx list" where
  "trades_pattern =
     [GOpen] @ rx_plus isdigit @ [GClose] @ rx_plus isspace @
     [Lit ''trade'', Alt [Lit ''s''] []] @ rx_plus isspace @
     [Lit ''in''] @ rx_plus isspace @ [Lit ''last''] @ rx_plus isspace @
     rx_plus isdigit @ rx_plus isspace @ [Lit ''day'', Alt [Lit ''s''] []]"

definition fallback :: string where
  "fallback = ''Daily market predictions and analysis''"

definition strip_markup :: "string \<Rightarrow> string" where
  "strip_markup email_html = re_sub space_pattern '' '' (re_sub tag_pattern '' '' email_html)"

definition ticker_part :: "string \<Rightarrow> string list" where
  "ticker_part txt =
     (case re_search ticker_pattern txt of
        Some m \<Rightarrow> [group m 1 @ '' tickers analyzed'']
      | None \<Rightarrow> [])"

definition stock_part :: "string \<Rightarrow> string list" where
  "stock_part txt =
     (case re_search stock_pattern txt of
        Some m \<Rightarrow>
          [''Market sentiment: '' @ str_title (str_strip (group m 2)) @ '' ('' @ group m 1 @ ''/100)'']
      | None \<Rightarrow> [])"

definition crypto_part :: "string \<Rightarrow> string list" where
  "crypto_part txt =
     (case re_search crypto_pattern txt of
        Some m \<Rightarrow>
          [''Crypto: '' @ str_title (str_strip (group m 2)) @ '' ('' @ group m 1 @ ''/100)'']
      | None \<Rightarrow> [])"

definition trades_part :: "string \<Rightarrow> string list" where
  "trades_part txt =
     (case re_search trades_pattern txt of
        Some m \<Rightarrow> [group m 1 @ '' congress trades tracked'']
      | None \<Rightarrow> [])"

definition extract_description :: "string \<Rightarrow> string" where
  "extract_description email_html =
     (let txt = strip_markup email_html;
          parts = ticker_part txt @ stock_part txt @ crypto_part txt @ trades_part txt
      in if parts = [] then fallback else str_join '' &middot; '' parts)"

section \<open>Dates\<close>

text \<open>
  \<open>datetime.strptime(s, "%Y-%m-%d")\<close>: the format becomes the regular expression
  \<open>(\\d\\d\\d\\d)-(1[0-2]|0[1-9]|[1-9])-(3[0-1]|[1-2]\\d|0[1-9]|[1-9]| [1-9])\<close>, which has to
  match at the start and leave nothing over; the three groups are read as numbers and
  have to form a date of the calendar, from the year 1 on. Every failure is a ValueError.
\<close>

definition strptime_pattern :: "rx list" where
  "strptime_pattern =
     [GOpen] @ digits4 @ [GClose, Lit ''-'',
      GOpen,
      Alt [Lit ''1'', One (\<lambda>c. c \<in> set ''012'')]
        [Alt [Lit ''0'', One (\<lambda>c. c \<in> set ''123456789'')]
           [One (\<lambda>c. c \<in> set ''123456789'')]],
      GClose, Lit ''-'',
      GOpen,
      Alt [Lit ''3'', One (\<lambda>c. c \<in> set ''01'')]
        [Alt [One (\<lambda>c. c \<in> set ''12''), One isdigit]
           [Alt [Lit ''0'', One (\<lambda>c. c \<in> set ''123456789'')]
              [Alt [One (\<lambda>c. c \<in> set ''123456789'')]
                 [Lit '' '', One (\<lambda>c. c \<in> set ''123456789'')]]]],
      GClose]"

text \<open>\<open>int(s)\<close> on a string of digits with white space around it.\<close>

definition digit_val :: "char \<Rightarrow> nat" where
  "digit_val c = (case map_of (zip ''0123456789'' [0, 1, 2, 3, 4, 5, 6, 7, 8, 9]) c of
                    Some n \<Rightarrow> n | None \<Rightarrow> 0)"

definition int_of_str :: "string \<Rightarrow> nat" where
  "int_of_str s = foldl (\<lambda>a c. 10 * a + digit_val c) 0 (str_strip s)"

record date =
  year :: nat
  month :: nat
  day :: nat

definition is_leap :: "nat \<Rightarrow> bool" where
  "is_leap y = (y mod 4 = 0 \<and> (0 < y mod 100 \<or> y mod 400 = 0))"

definition days_in_month :: "nat \<Rightarrow> nat \<Rightarrow> nat" where
  "days_in_month y m =
     (if m = 2 then (if is_leap y then 29 else 28)
      else if m = 4 \<or> m = 6 \<or> m = 9 \<or> m = 11 then 30 else 31)"

definition valid_date :: "nat \<Rightarrow> nat \<Rightarrow> nat \<Rightarrow> bool" where
  "valid_date y m d = (1 \<le> y \<and> y \<le> 9999 \<and> 1 \<le> m \<and> m \<le> 12 \<and> 1 \<le> d \<and> d \<le> days_in_month y m)"

definition strptime :: "string \<Rightarrow> date option" where
  "strptime s =
     (case rmatch strptime_pattern [] [] s of
        None \<Rightarrow> None
      | Some res \<Rightarrow>
          (if snd res \<noteq> [] then None
           else let y = int_of_str (group (fst res) 1);
                    m = int_of_str (group (fst res) 2);
                    d = int_of_str (group (fst res) 3)
                in if valid_date y m d then Some \<lparr>year = y, month = m, day = d\<rparr> else None))"

text \<open>\<open>date.weekday()\<close> from the ordinal of the day, Monday being 0.\<close>

definition days_before_year :: "nat \<Rightarrow> nat" where
  "days_before_year y = (y - 1) * 365 + (y - 1) div 4 - (y - 1) div 100 + (y - 1) div 400"

definition days_before_month :: "nat \<Rightarrow> nat \<Rightarrow> nat" where
  "days_before_month y m = sum_list (map (days_in_month y) [1 ..< m])"

definition toordinal :: "date \<Rightarrow> nat" where
  "toordinal d = days_before_year (year d) + days_before_month (year d) (month d) + day d"

definition weekday :: "date \<Rightarrow> nat" where
  "weekday d = (toordinal d + 6) mod 7"

text \<open>\<open>strftime('%B')\<close> and \<open>strftime('%A')\<close> in the C locale.\<close>

definition month_names :: "string list" where
  "month_names = [''January'', ''February'', ''March'', ''April'', ''May'', ''June'', ''July'',
     ''August'', ''September'', ''October'', ''November'', ''December'']"

definition day_names :: "string list" where
  "day_names = [''Monday'', ''Tuesday'', ''Wednesday'', ''Thursday'', ''Friday'', ''Saturday'',
     ''Sunday'']"

definition month_name :: "date \<Rightarrow> string" where
  "month_name d = month_names ! (month d - 1)"

definition day_name :: "date \<Rightarrow> string" where
  "day_name d = day_names ! weekday d"

definition format_date_display :: "date \<Rightarrow> string" where
  "format_date_display date_obj =
     month_name date_obj @ '' '' @ str_of_nat (day date_obj) @ '', '' @
     str_of_nat (year date_obj) @ '' &middot; '' @ day_name date_obj"

definition format_month_header :: "date \<Rightarrow> string" where
  "format_month_header date_obj = month_name date_obj @ '' '' @ str_of_nat (year date_obj)"

section \<open>Index merge engine\<close>

definition ENTRY_START :: string where
  "ENTRY_START = ''<!-- DAILY-ENTRIES -->''"

definition ENTRY_END :: string where
  "ENTRY_END = ''<!-- /DAILY-ENTRIES -->''"

text \<open>
  A \<open>dict\<close> is the list of its items in insertion order, with distinct keys: storing
  under a key that is present replaces the value in place.
\<close>

type_synonym ('k, 'v) dict = "('k \<times> 'v) list"

fun dict_set :: "'k \<Rightarrow> 'v \<Rightarrow> ('k, 'v) dict \<Rightarrow> ('k, 'v) dict" where
  "dict_set k v [] = [(k, v)]"
| "dict_set k v ((k', v') # m) =
     (if k' = k then (k, v) # m else (k', v') # dict_set k v m)"

definition dict_get :: "('k, 'v) dict \<Rightarrow> 'k \<Rightarrow> 'v option" where
  "dict_get m k = map_of m k"

definition dict_keys :: "('k, 'v) dict \<Rightarrow> 'k list" where
  "dict_keys m = map fst m"

text \<open>The value of an entry is the dict \<open>{"description": ...}\<close>.\<close>

type_synonym info = "(string, string) dict"
type_synonym entries = "(string, info) dict"

definition card_pattern :: "rx list" where
  "card_pattern =
     [Lit ''<div class=\"update-card\">'', Star isspace True,
      Lit ''<a href=\"'', GOpen] @
     digits4 @ [Lit ''-''] @ digits2 @ [Lit ''-''] @ digits2 @
     [GClose, Lit ''.html\">'', Star isspace True,
      Lit ''<div class=\"update-date\">'', Star anychar False, Lit ''</div>'', Star isspace True,
      Lit ''<div class=\"update-title\">'', Star anychar False, Lit ''</div>'', Star isspace True,
      Lit ''<p class=\"update-desc\">'', GOpen, Star anychar False, GClose, Lit ''</p>'',
      Star isspace True, Lit ''</a>'', Star isspace True, Lit ''</div>'']"

definition add_match :: "entries \<Rightarrow> string list \<Rightarrow> entries" where
  "add_match entries m =
     dict_set (group m 1) [(''description'', str_strip (group m 2))] entries"

definition parse_existing_entries :: "string \<Rightarrow> entries" where
  "parse_existing_entries index_html =
     (case str_find ENTRY_START index_html of
        None \<Rightarrow> []
      | Some start_idx \<Rightarrow>
          (case str_find ENTRY_END index_html of
             None \<Rightarrow> []
           | Some end_idx \<Rightarrow>
               foldl add_match []
                 (re_finditer card_pattern
                    (slice index_html (start_idx + length ENTRY_START) end_idx))))"

definition generate_card :: "string \<Rightarrow> date \<Rightarrow> string \<Rightarrow> string" where
  "generate_card date_str date_obj description =
     ''  <div class=\"update-card\">\<newline>'' @
     ''    <a href=\"'' @ date_str @ ''.html\">\<newline>'' @
     ''      <div class=\"update-date\">'' @ format_date_display date_obj @ ''</div>\<newline>'' @
     ''      <div class=\"update-title\">Daily Market Update</div>\<newline>'' @
     ''      <p class=\"update-desc\">'' @ description @ ''</p>\<newline>'' @
     ''    </a>\<newline>'' @
     ''  </div>''"

text \<open>
  The exceptions of a run. \<open>OtherError\<close> stands for any exception that a call of the
  operating system or the decoder raises and that is not named here.
\<close>

datatype error =
  SystemExit nat | ValueError | KeyError | FileNotFoundError | CalledProcessError nat | OtherError

definition month_header_line :: "date \<Rightarrow> string" where
  "month_header_line date_obj =
     ''\<newline>  <h4 style=\"margin-top: 30px;\">'' @ format_month_header date_obj @ ''</h4>''"

text \<open>
  The loop of \<open>generate_entries_html\<close> over the sorted dates, with \<open>current_month\<close> as
  its state; the result is the list \<open>lines\<close>.
\<close>

fun entry_lines :: "entries \<Rightarrow> (nat \<times> nat) option \<Rightarrow> string list \<Rightarrow> error + string list" where
  "entry_lines entries current_month [] = Inr []"
| "entry_lines entries current_month (date_str # ds) =
     (case strptime date_str of
        None \<Rightarrow> Inl ValueError
      | Some date_obj \<Rightarrow>
          (case dict_get entries date_str of
             None \<Rightarrow> Inl KeyError
           | Some entry \<Rightarrow>
               (let month_key = (year date_obj, month date_obj);
                    header = (if Some month_key \<noteq> current_month
                              then [month_header_line date_obj] else []);
                    description = (case dict_get entry ''description'' of
                                     Some d \<Rightarrow> d | None \<Rightarrow> fallback)
                in case entry_lines entries (Some month_key) ds of
                     Inl e \<Rightarrow> Inl e
                   | Inr ls \<Rightarrow>
                       Inr (header @ [[], generate_card date_str date_obj description] @ ls))))"

text \<open>\<open>sorted(entries.keys(), reverse=True)\<close>, on keys that are distinct.\<close>

definition sorted_dates :: "entries \<Rightarrow> string list" where
  "sorted_dates entries = rev (sort (dict_keys entries))"

definition generate_entries_html :: "entries \<Rightarrow> error + string" where
  "generate_entries_html entries =
     (if entries = [] then Inr []
      else case entry_lines entries None (sorted_dates entries) of
             Inl e \<Rightarrow> Inl e
           | Inr ls \<Rightarrow> Inr (str_join ''\<newline>'' ls))"

section \<open>Page generator\<close>

text \<open>\<open>strftime('%b')\<close> in the C locale: the first three letters of the month.\<close>

definition short_month_name :: "date \<Rightarrow> string" where
  "short_month_name d = take 3 (month_name d)"

definition generate_wrapper_page :: "string \<Rightarrow> date \<Rightarrow> string" where
  "generate_wrapper_page date_str date_obj =
     ''<!DOCTYPE html>\<newline>'' @
     ''<html lang=\"en\"><head>\<newline>'' @
     ''<meta http-equiv=\"content-type\" content=\"text/html; charset=UTF-8\">\<newline>'' @
     ''  <title>Daily Update - '' @
     short_month_name date_obj @
     '' '' @
     str_of_nat (day date_obj) @
     '', '' @
     str_of_nat (year date_obj) @
     '' - AutoTrader</title>\<newline>'' @
     ''  <meta charset=\"utf-8\">\<newline>'' @
     ''  <meta name=\"viewport\" content=\"width=device-width, initial-scale=1\">\<newline>'' @
     ''  <meta name=\"description\" content=\"AutoTrader daily market predictions for '' @
     month_name date_obj @
     '' '' @
     str_of_nat (day date_obj) @
     '', '' @
     str_of_nat (year date_obj) @
     ''\">\<newline>'' @
     ''  <link rel=\"icon\" type=\"image/svg+xml\" href=\"../../favicon.svg\">\<newline>'' @
     ''  <link rel=\"stylesheet\" href=\"../../Bootstrap%20Theme%20Company%20Page_files/bootstrap.css\">\<newline>'' @
     ''  <link href=\"../../Bootstrap%20Theme%20Company%20Page_files/css_002.css\" rel=\"stylesheet\" type=\"text/css\">\<newline>'' @
     ''  <link href=\"../../Bootstrap%20Theme%20Company%20Page_files/css.css\" rel=\"stylesheet\" type=\"text/css\">\<newline>'' @
     ''  <script src=\"../../Bootstrap%20Theme%20Company%20Page_files/jquery.js\"></script>\<newline>'' @
     ''  <script src=\"../../Bootstrap%20Theme%20Company%20Page_files/bootstrap.js\"></script>\<newline>'' @
     ''  <script src=\"https://use.fontawesome.com/7c37a02403.js\"></script>\<newline>'' @
     ''  <style>\<newline>'' @
     ''  body {\<newline>'' @
     ''      font: 400 15px Lato, sans-serif;\<newline>'' @
     ''      line-height: 1.8;\<newline>'' @
     ''      color: #818181;\<newline>'' @
     ''  }\<newline>'' @
     ''  p { font-size: 16px; }\<newline>'' @
     ''  .bg-1 { background-color: #1abc9c; color: #ffffff; }\<newline>'' @
     ''  .bg-2 { background-color: #474e5d; color: #ffffff; }\<newline>'' @
     ''  .bg-3 { background-color: #ffffff; color: #555555; }\<newline>'' @
     ''  .bg-4 { background-color: #2f2f2f; color: #fff; }\<newline>'' @
     ''  h2 {\<newline>'' @
     ''      font-size: 24px;\<newline>'' @
     ''      text-transform: uppercase;\<newline>'' @
     ''      color: #303030;\<newline>'' @
     ''      font-weight: 600;\<newline>'' @
     ''      margin-bottom: 30px;\<newline>'' @
     ''  }\<newline>'' @
     ''  .navbar {\<newline>'' @
     ''      margin-bottom: 0;\<newline>'' @
     ''      background-color: #2f2f2f;\<newline>'' @
     ''      z-index: 9999;\<newline>'' @
     ''      border: 0;\<newline>'' @
     ''      font-size: 12px !important;\<newline>'' @
     ''      line-height: 1.42857143 !important;\<newline>'' @
     ''      letter-spacing: 4px;\<newline>'' @
     ''      border-radius: 0;\<newline>'' @
     ''      font-family: Montserrat, sans-serif;\<newline>'' @
     ''  }\<newline>'' @
     ''  .navbar li a, .navbar .navbar-brand { color: #fff !important; }\<newline>'' @
     ''  .navbar-nav li a:hover, .navbar-nav li.active a {\<newline>'' @
     ''      color: #1abc9c !important;\<newline>'' @
     ''      background-color: #fff !important;\<newline>'' @
     ''  }\<newline>'' @
     ''  .navbar-default .navbar-toggle { border-color: transparent; color: #fff !important; }\<newline>'' @
     ''  .container-fluid { padding: 60px 50px; }\<newline>'' @
     ''  .section-divider {\<newline>'' @
     ''      width: 60px;\<newline>'' @
     ''      height: 3px;\<newline>'' @
     ''      background: #1abc9c;\<newline>'' @
     ''      margin: 0 0 30px 0;\<newline>'' @
     ''  }\<newline>'' @
     ''  .bg-grey { background-color: #f6f6f6; }\<newline>'' @
     ''  .email-iframe {\<newline>'' @
     ''      width: 100%;\<newline>'' @
     ''      border: none;\<newline>'' @
     ''      min-height: 600px;\<newline>'' @
     ''      border-radius: 8px;\<newline>'' @
     ''      box-shadow: 0 2px 12px rgba(0,0,0,0.08);\<newline>'' @
     ''  }\<newline>'' @
     ''  .back-link {\<newline>'' @
     ''      display: inline-block;\<newline>'' @
     ''      margin-bottom: 20px;\<newline>'' @
     ''      color: #1abc9c;\<newline>'' @
     ''      font-family: Montserrat, sans-serif;\<newline>'' @
     ''      font-size: 13px;\<newline>'' @
     ''      letter-spacing: 1px;\<newline>'' @
     ''      text-decoration: none;\<newline>'' @
     ''  }\<newline>'' @
     ''  .back-link:hover { color: #16a085; text-decoration: underline; }\<newline>'' @
     ''  .date-heading {\<newline>'' @
     ''      font-family: Montserrat, sans-serif;\<newline>'' @
     ''      font-size: 14px;\<newline>'' @
     ''      color: #1abc9c;\<newline>'' @
     ''      text-transform: uppercase;\<newline>'' @
     ''      letter-spacing: 2px;\<newline>'' @
     ''      margin-bottom: 5px;\<newline>'' @
     ''  }\<newline>'' @
     ''  @media screen and (max-width: 768px) {\<newline>'' @
     ''    .container-fluid { padding: 40px 20px; }\<newline>'' @
     ''  }\<newline>'' @
     ''  </style>\<newline>'' @
     ''</head>\<newline>'' @
     ''<body>\<newline>'' @
     ''\<newline>'' @
     ''<nav class=\"navbar navbar-default navbar-fixed-top\">\<newline>'' @
     ''  <div class=\"container\">\<newline>'' @
     ''    <div class=\"navbar-header\">\<newline>'' @
     ''      <button type=\"button\" class=\"navbar-toggle\" data-toggle=\"collapse\" data-target=\"#myNavbar\">\<newline>'' @
     ''        <span class=\"icon-bar\"></span>\<newline>'' @
     ''        <span class=\"icon-bar\"></span>\<newline>'' @
     ''        <span class=\"icon-bar\"></span>\<newline>'' @
     ''      </button>\<newline>'' @
     ''      <a class=\"navbar-brand\" href=\"../../index.html\">Dave Liu</a>\<newline>'' @
     ''    </div>\<newline>'' @
     ''    <div class=\"collapse navbar-collapse\" id=\"myNavbar\">\<newline>'' @
     ''      <ul class=\"nav navbar-nav navbar-right\">\<newline>'' @
     ''        <li><a href=\"../../portfolio.html\">Portfolio</a></li>\<newline>'' @
     ''        <li><a href=\"../../index.html\">Data</a></li>\<newline>'' @
     ''        <li><a href=\"../../autotrader.html\">AutoTrader</a></li>\<newline>'' @
     ''        <li class=\"active\"><a href=\"index.html\">Daily Updates</a></li>\<newline>'' @
     ''        <li><a href=\"https://www.linkedin.com/in/dave-liu-a3139775/\" target=\"_blank\"><span class=\"fa fa-linkedin\"></span></a></li>\<newline>'' @
     ''        <li><a href=\"https://github.com/daliu\" target=\"_blank\"><span class=\"fa fa-github\"></span></a></li>\<newline>'' @
     ''      </ul>\<newline>'' @
     ''    </div>\<newline>'' @
     ''  </div>\<newline>'' @
     ''</nav>\<newline>'' @
     ''\<newline>'' @
     ''<div style=\"height: 50px;\"></div>\<newline>'' @
     ''\<newline>'' @
     ''<div class=\"container-fluid\">\<newline>'' @
     ''  <a href=\"index.html\" class=\"back-link\">&larr; All Daily Updates</a>\<newline>'' @
     ''  <div class=\"date-heading\">'' @
     month_name date_obj @
     '' '' @
     str_of_nat (day date_obj) @
     '', '' @
     str_of_nat (year date_obj) @
     ''</div>\<newline>'' @
     ''  <h2>Daily Market Update</h2>\<newline>'' @
     ''  <div class=\"section-divider\"></div>\<newline>'' @
     ''  <p>AutoTrader's daily predictions and market analysis for the upcoming trading day. This report includes top bullish and bearish picks, market sentiment indicators, economic calendar events, and social sentiment data.</p>\<newline>'' @
     ''\<newline>'' @
     ''  <iframe src=\"emails/'' @
     date_str @
     ''.html\" class=\"email-iframe\" id=\"emailFrame\"></iframe>\<newline>'' @
     ''</div>\<newline>'' @
     ''\<newline>'' @
     ''<footer class=\"container-fluid text-center\" style=\"background: #2f2f2f; padding: 40px 50px; color: #95a5a6;\">\<newline>'' @
     ''  <div style=\"margin-bottom: 15px;\">\<newline>'' @
     ''    <a href=\"https://www.linkedin.com/in/dave-liu-a3139775/\" target=\"_blank\" style=\"color: #fff; margin: 0 12px; font-size: 20px;\"><span class=\"fa fa-linkedin\"></span></a>\<newline>'' @
     ''    <a href=\"https://github.com/daliu\" target=\"_blank\" style=\"color: #fff; margin: 0 12px; font-size: 20px;\"><span class=\"fa fa-github\"></span></a>\<newline>'' @
     ''    <a href=\"mailto:7david12liu@gmail.com\" style=\"color: #fff; margin: 0 12px; font-size: 20px;\"><span class=\"fa fa-envelope-o\"></span></a>\<newline>'' @
     ''  </div>\<newline>'' @
     ''  <p style=\"margin-bottom: 5px;\"><a href=\"../../portfolio.html\" style=\"color: #1abc9c;\">Portfolio</a> &middot; <a href=\"../../index.html\" style=\"color: #1abc9c;\">Data</a> &middot; <a href=\"../../autotrader.html\" style=\"color: #1abc9c;\">AutoTrader</a> &middot; <a href=\"index.html\" style=\"color: #1abc9c;\">Daily Updates</a></p>\<newline>'' @
     ''  <p style=\"font-size: 12px; margin-bottom: 0;\">Dave Liu &copy; 2025</p>\<newline>'' @
     ''</footer>\<newline>'' @
     ''\<newline>'' @
     ''<script>\<newline>'' @
     ''// Auto-resize iframe to fit content\<newline>'' @
     ''function resizeIframe() {\<newline>'' @
     ''  var iframe = document.getElementById('emailFrame');\<newline>'' @
     ''  try {\<newline>'' @
     ''    var height = iframe.contentWindow.document.documentElement.scrollHeight;\<newline>'' @
     ''    iframe.style.height = height + 40 + 'px';\<newline>'' @
     ''  } catch(e) {\<newline>'' @
     ''    // Cross-origin fallback: set a generous default\<newline>'' @
     ''    iframe.style.height = '3000px';\<newline>'' @
     ''  }\<newline>'' @
     ''}\<newline>'' @
     ''document.getElementById('emailFrame').addEventListener('load', resizeIframe);\<newline>'' @
     ''</script>\<newline>'' @
     ''\<newline>'' @
     ''</body></html>\<newline>''"

section \<open>Updating the index file\<close>

text \<open>
  The part of \<open>update_index\<close> between reading and writing the file. \<open>x in html\<close> holds
  exactly when \<open>html.find(x)\<close> is an index, so the two tests for the markers and the
  two calls of \<open>find\<close> are one case distinction each; \<open>sys.exit(1)\<close> raises
  \<open>SystemExit 1\<close>.
\<close>

text \<open>\<open>entries[date_str] = {"description": description}\<close>.\<close>

definition merge_entry :: "string \<Rightarrow> string \<Rightarrow> entries \<Rightarrow> entries" where
  "merge_entry date_str description entries =
     dict_set date_str [(''description'', description)] entries"

definition merged_entries :: "string \<Rightarrow> string \<Rightarrow> string \<Rightarrow> entries" where
  "merged_entries date_str description html =
     merge_entry date_str description (parse_existing_entries html)"

definition new_html :: "string \<Rightarrow> string \<Rightarrow> string \<Rightarrow> error + string" where
  "new_html date_str description html =
     (case str_find ENTRY_START html of
        None \<Rightarrow> Inl (SystemExit 1)
      | Some start_idx \<Rightarrow>
          (case str_find ENTRY_END html of
             None \<Rightarrow> Inl (SystemExit 1)
           | Some end_idx \<Rightarrow>
               (case generate_entries_html (merged_entries date_str description html) of
                  Inl e \<Rightarrow> Inl e
                | Inr entries_html \<Rightarrow>
                    Inr (take (start_idx + length ENTRY_START) html @ entries_html @
                         ''\<newline>  '' @ drop end_idx html))))"

text \<open>
  The files are a map from paths to contents, and two paths name the same file when they
  are equal. \<open>out\<close> is what was printed, a line at a time.
\<close>

record world =
  files :: "string \<rightharpoonup> string"
  out :: "string list"
  cwd :: string

definition print :: "string \<Rightarrow> world \<Rightarrow> world" where
  "print line w = w\<lparr>out := out w @ [line]\<rparr>"

definition write_file :: "string \<Rightarrow> string \<Rightarrow> world \<Rightarrow> world" where
  "write_file path content w = w\<lparr>files := (files w)(path \<mapsto> content)\<rparr>"

text \<open>
  The script opens its files in text mode. Reading turns every carriage return with its
  line feed, and every other carriage return, into one line feed; writing leaves a line
  feed as it is (the script runs on a POSIX system: its default source is under /tmp).
  Reading a path that is not there raises FileNotFoundError.
\<close>

fun universal_newlines :: "string \<Rightarrow> string" where
  "universal_newlines [] = []"
| "universal_newlines [c] = (if c = CHR 0x0D then [CHR 0x0A] else [c])"
| "universal_newlines (c # d # s) =
     (if c = CHR 0x0D
      then (if d = CHR 0x0A then CHR 0x0A # universal_newlines s
            else CHR 0x0A # universal_newlines (d # s))
      else c # universal_newlines (d # s))"

definition read_text :: "world \<Rightarrow> string \<Rightarrow> string option" where
  "read_text w path = map_option universal_newlines (files w path)"

text \<open>\<open>os.path.join\<close> of two parts.\<close>

definition path_join :: "string \<Rightarrow> string \<Rightarrow> string" where
  "path_join a b =
     (if startswith ''/'' b then b
      else if a = [] \<or> last a = CHR ''/'' then a @ b
      else a @ ''/'' @ b)"

definition DAILY_DIR :: "string \<Rightarrow> string" where
  "DAILY_DIR script_dir = path_join (path_join script_dir ''autotrader'') ''daily''"

definition EMAILS_DIR :: "string \<Rightarrow> string" where
  "EMAILS_DIR script_dir = path_join (DAILY_DIR script_dir) ''emails''"

definition INDEX_PATH :: "string \<Rightarrow> string" where
  "INDEX_PATH script_dir = path_join (DAILY_DIR script_dir) ''index.html''"

definition update_index :: "string \<Rightarrow> string \<Rightarrow> string \<Rightarrow> world \<Rightarrow> (error + unit) \<times> world" where
  "update_index script_dir date_str description w =
     (case read_text w (INDEX_PATH script_dir) of
        None \<Rightarrow> (Inl FileNotFoundError, w)
      | Some html \<Rightarrow>
          (case new_html date_str description html of
             Inl (SystemExit n) \<Rightarrow>
               (Inl (SystemExit n),
                print (''  Expected: '' @ ENTRY_START @ '' and '' @ ENTRY_END)
                  (print (''ERROR: Markers not found in '' @ INDEX_PATH script_dir) w))
           | Inl e \<Rightarrow> (Inl e, w)
           | Inr new \<Rightarrow>
               (Inr (),
                print (''  Updated '' @ INDEX_PATH script_dir @ '' ('' @
                       str_of_nat (length (merged_entries date_str description html)) @
                       '' entries)'')
                  (write_file (INDEX_PATH script_dir) new w))))"

section \<open>Publish orchestrator\<close>

text \<open>
  The arguments after \<open>parse_args\<close>, and the surroundings of a run: the directory of the
  script, the return code of each call of the version control tool, the paths that are
  directories, and the steps that the operating system refuses for a reason outside this
  model (permissions, a file that is no text).
\<close>

record args =
  date_arg :: string
  source :: string
  no_push :: bool

datatype io_step = Makedirs | Copy | ReadEmail | WriteWrapper

record env =
  script_dir :: string
  git :: "string list \<Rightarrow> nat"
  is_dir :: "string \<Rightarrow> bool"
  refused :: "io_step \<Rightarrow> bool"

definition is_file :: "world \<Rightarrow> string \<Rightarrow> bool" where
  "is_file w path = (files w path \<noteq> None)"

text \<open>\<open>os.path.exists\<close>.\<close>

definition path_exists :: "env \<Rightarrow> world \<Rightarrow> string \<Rightarrow> bool" where
  "path_exists e w path = (is_file w path \<or> is_dir e path)"

text \<open>\<open>subprocess.run(cmd, check=True)\<close>.\<close>

definition run_checked :: "env \<Rightarrow> string list \<Rightarrow> error + unit" where
  "run_checked e cmd = (if git e cmd = 0 then Inr () else Inl (CalledProcessError (git e cmd)))"

definition commit_and_push :: "env \<Rightarrow> string \<Rightarrow> world \<Rightarrow> (error + unit) \<times> world" where
  "commit_and_push e date_str w =
     (let w1 = (print ''  Committing and pushing...'' w)\<lparr>cwd := script_dir e\<rparr>
      in case run_checked e [''git'', ''add'', ''autotrader/daily/''] of
           Inl err \<Rightarrow> (Inl err, w1)
         | Inr _ \<Rightarrow>
             (if git e [''git'', ''diff'', ''--cached'', ''--quiet''] \<noteq> 0 then
                (case run_checked e [''git'', ''commit'', ''-m'', ''daily: '' @ date_str @ '' market update''] of
                   Inl err \<Rightarrow> (Inl err, w1)
                 | Inr _ \<Rightarrow>
                     (case run_checked e [''git'', ''pull'', ''--rebase''] of
                        Inl err \<Rightarrow> (Inl err, w1)
                      | Inr _ \<Rightarrow>
                          (case run_checked e [''git'', ''push''] of
                             Inl err \<Rightarrow> (Inl err, w1)
                           | Inr _ \<Rightarrow> (Inr (), print ''  Pushed to GitHub!'' w1))))
              else (Inr (), print ''  No changes to commit (already up to date)'' w1)))"

definition done_line :: "string \<Rightarrow> string" where
  "done_line date_str =
     ''\<newline>Done! View at: https://daliu.github.io/autotrader/daily/'' @ date_str @ ''.html''"

text \<open>\<open>os.path.basename\<close>: what follows the last slash.\<close>

definition basename :: "string \<Rightarrow> string" where
  "basename p = rev (takeWhile (\<lambda>c. c \<noteq> CHR ''/'') (rev p))"

text \<open>
  The steps of \<open>main\<close> between the two checks and the index update: the directory is
  made, the source is copied, the copy is read, the wrapper page is written. The result
  is the description. \<open>os.makedirs\<close> raises when one of the directories it needs is a
  file. \<open>shutil.copy2\<close> copies into the destination when that is a directory, and raises
  when the source is a directory, when source and destination are the same file, and
  when the file to write is a directory. \<open>open\<close> raises on a directory. \<open>main\<close>
  catches none of these exceptions.
\<close>

definition prepare :: "env \<Rightarrow> args \<Rightarrow> date \<Rightarrow> world \<Rightarrow> (error + string) \<times> world" where
  "prepare e a date_obj w =
     (let date_str = date_arg a;
          w1 = print (''  Source: '' @ source a)
                 (print (''Publishing daily email for '' @ date_str) w);
          email_dest = path_join (EMAILS_DIR (script_dir e)) (date_str @ ''.html'');
          wrapper_path = path_join (DAILY_DIR (script_dir e)) (date_str @ ''.html'')
      in if refused e Makedirs \<or> is_file w (EMAILS_DIR (script_dir e))
            \<or> is_file w (DAILY_DIR (script_dir e))
            \<or> is_file w (path_join (script_dir e) ''autotrader'')
         then (Inl OtherError, w1)
         else (case files w (source a) of
                 None \<Rightarrow> (Inl OtherError, w1)
               | Some content \<Rightarrow>
                   (let dst = (if is_dir e email_dest
                               then path_join email_dest (basename (source a))
                               else email_dest)
                    in if source a = dst \<or> is_dir e dst \<or> refused e Copy
                       then (Inl OtherError, w1)
                       else (let w2 = print (''  Copied email to '' @ email_dest)
                                        (write_file dst content w1)
                             in if is_dir e email_dest \<or> refused e ReadEmail
                                then (Inl OtherError, w2)
                                else (case read_text w2 email_dest of
                                        None \<Rightarrow> (Inl FileNotFoundError, w2)
                                      | Some email_html \<Rightarrow>
                                          (let description = extract_description email_html;
                                               w3 = print (''  Description: '' @ description) w2
                                           in if is_dir e wrapper_path \<or> refused e WriteWrapper
                                              then (Inl OtherError, w3)
                                              else (Inr description,
                                                    print (''  Generated wrapper: '' @ wrapper_path)
                                                      (write_file wrapper_path
                                                         (generate_wrapper_page date_str date_obj)
                                                         w3))))))))"

definition main :: "env \<Rightarrow> args \<Rightarrow> world \<Rightarrow> (error + unit) \<times> world" where
  "main e a w =
     (case strptime (date_arg a) of
        None \<Rightarrow>
          (Inl (SystemExit 1),
           print (''ERROR: Invalid date format '' @ [CHR 0x27] @ date_arg a @ [CHR 0x27] @
                  ''. Use YYYY-MM-DD.'') w)
      | Some date_obj \<Rightarrow>
          (let date_str = date_arg a in
           if path_exists e w (source a) then
             (case prepare e a date_obj w of
                (Inl err, w4) \<Rightarrow> (Inl err, w4)
              | (Inr description, w4) \<Rightarrow>
                  (case update_index (script_dir e) date_str description w4 of
                     (Inl err, w5) \<Rightarrow> (Inl err, w5)
                   | (Inr _, w5) \<Rightarrow>
                       (if no_push a then
                          (Inr (), print (done_line date_str)
                                     (print ''  Skipping git (--no-push)'' w5))
                        else
                          (case commit_and_push e date_str w5 of
                             (Inl err, w6) \<Rightarrow> (Inl err, w6)
                           | (Inr _, w6) \<Rightarrow> (Inr (), print (done_line date_str) w6)))))
           else (Inl (SystemExit 1), print (''ERROR: Source file not found: '' @ source a) w)))"

text \<open>
  The exit status of the process: 0 when \<open>main\<close> returns, the argument of
  \<open>sys.exit\<close>, and 1 with a traceback when another exception is not caught.
\<close>

definition exit_status :: "error + unit \<Rightarrow> nat" where
  "exit_status r = (case r of Inr _ \<Rightarrow> 0 | Inl (SystemExit n) \<Rightarrow> n | Inl _ \<Rightarrow> 1)"

section \<open>Notions used in the proofs\<close>

text \<open>What the open groups hold after the matcher has taken the string \<open>u\<close>.\<close>

definition take_str :: "string \<Rightarrow> string list \<Rightarrow> string list" where
  "take_str u os = map ((@) (rev u)) os"

text \<open>
  \<open>accepts p s\<close>: the pattern matches at the start of \<open>s\<close>. It is the matcher without
  the groups and without the order in which the alternatives are tried.
\<close>

function accepts :: "rx list \<Rightarrow> string \<Rightarrow> bool" where
  "accepts [] s = True"
| "accepts (Lit [] # r) s = accepts r s"
| "accepts (Lit (c # l) # r) [] = False"
| "accepts (Lit (c # l) # r) (x # s) = (x = c \<and> accepts (Lit l # r) s)"
| "accepts (One c # r) [] = False"
| "accepts (One c # r) (x # s) = (c x \<and> accepts r s)"
| "accepts (Star c g # r) [] = accepts r []"
| "accepts (Star c g # r) (x # s) = (accepts r (x # s) \<or> (c x \<and> accepts (Star c g # r) s))"
| "accepts (Alt a b # r) s = (accepts (a @ r) s \<or> accepts (b @ r) s)"
| "accepts (GOpen # r) s = accepts r s"
| "accepts (GClose # r) s = accepts r s"
  by pat_completeness auto
termination
  by (relation "measures [\<lambda>(p, s). size_list size p, \<lambda>(p, s). length s]") auto

text \<open>A date string as the card pattern takes it: \<open>\\d{4}-\\d{2}-\\d{2}\<close> and nothing else.\<close>

definition date_pattern :: "rx list" where
  "date_pattern = digits4 @ [Lit ''-''] @ digits2 @ [Lit ''-''] @ digits2"

definition iso_date :: "string \<Rightarrow> bool" where
  "iso_date k = (rmatch date_pattern [] [] k = Some ([], []))"

section \<open>Documents used as examples\<close>

text \<open>What \<open>update_index\<close> makes of an empty marker region for the date \<open>2026-2-8\<close>.\<close>

definition unpadded_doc :: string where
  "unpadded_doc =
     ''<!-- DAILY-ENTRIES -->\<newline>'' @
     ''  <h4 style=\"margin-top: 30px;\">February 2026</h4>\<newline>'' @
     ''\<newline>'' @
     ''  <div class=\"update-card\">\<newline>'' @
     ''    <a href=\"2026-2-8.html\">\<newline>'' @
     ''      <div class=\"update-date\">February 8, 2026 &middot; Sunday</div>\<newline>'' @
     ''      <div class=\"update-title\">Daily Market Update</div>\<newline>'' @
     ''      <p class=\"update-desc\">x</p>\<newline>'' @
     ''    </a>\<newline>'' @
     ''  </div>\<newline>'' @
     ''  <!-- /DAILY-ENTRIES -->''"


text \<open>A run of the script: its arguments and its surroundings, for an index document.\<close>

definition run_env :: env where
  "run_env = \<lparr>script_dir = ''/site'', git = (\<lambda>cmd. 0), is_dir = (\<lambda>path. False),
               refused = (\<lambda>step. False)\<rparr>"

definition run_args :: args where
  "run_args = \<lparr>date_arg = ''2026-02-18'', source = ''/tmp/email.html'', no_push = True\<rparr>"

definition run_world :: "string \<Rightarrow> world" where
  "run_world index_html =
     \<lparr>files = [''/tmp/email.html'' \<mapsto> ''hello'', INDEX_PATH ''/site'' \<mapsto> index_html],
      out = [], cwd = []\<rparr>"

text \<open>An index document whose first line ends with CR LF.\<close>

definition cr_doc :: string where
  "cr_doc = ''a'' @ [CHR 0x0D, CHR 0x0A] @ ''<!-- DAILY-ENTRIES -->b<!-- /DAILY-ENTRIES -->c''"

text \<open>
  No step of \<open>main\<close> between its two checks and the index update raises: the
  directories can be made, the source is a file other than its copy, and the copy and
  the wrapper page can be written where they belong and read back.
\<close>

definition steps_succeed :: "env \<Rightarrow> args \<Rightarrow> world \<Rightarrow> bool" where
  "steps_succeed e a w =
     (is_file w (source a)
      \<and> source a \<noteq> path_join (EMAILS_DIR (script_dir e)) (date_arg a @ ''.html'')
      \<and> \<not> (refused e Makedirs \<or> is_file w (EMAILS_DIR (script_dir e))
             \<or> is_file w (DAILY_DIR (script_dir e))
             \<or> is_file w (path_join (script_dir e) ''autotrader'')
             \<or> is_dir e (path_join (EMAILS_DIR (script_dir e)) (date_arg a @ ''.html''))
             \<or> is_dir e (path_join (DAILY_DIR (script_dir e)) (date_arg a @ ''.html''))
             \<or> refused e Copy \<or> refused e ReadEmail \<or> refused e WriteWrapper))"

section \<open>Rules for evaluating the definitions\<close>

lemmas pats = tag_pattern_def space_pattern_def ticker_pattern_def score_label_def
  stock_pattern_def crypto_pattern_def trades_pattern_def card_pattern_def strptime_pattern_def
  rx_plus_def digits2_def digits4_def
lemmas chars = isspace_def isdigit_def isupper_def islower_def anychar_def isdash_def
  label_rest_def space_chars_def upper_chars_def lower_chars_def
lemmas date_evals = pats chars strptime_def group_def int_of_str_def digit_val_def valid_date_def
  days_in_month_def is_leap_def str_strip_def Let_def take_char_def Option.is_none_def

lemma strptime_example: "strptime ''2026-02-18'' = Some \<lparr>year = 2026, month = 2, day = 18\<rparr>"
  by (simp add: date_evals)

lemmas gen_evals = generate_entries_html_def sorted_dates_def dict_keys_def dict_get_def
  generate_card_def format_date_display_def format_month_header_def month_header_line_def
  month_name_def day_name_def month_names_def day_names_def weekday_def toordinal_def
  days_before_year_def days_before_month_def upt_rec str_of_nat.simps digit_char_def fallback_def

lemmas index_evals = new_html_def merged_entries_def merge_entry_def parse_existing_entries_def ENTRY_START_def
  ENTRY_END_def slice_def add_match_def match_rest_def match_groups_def

section \<open>Basic facts\<close>

lemma startswith_prefix: "startswith pat s = prefix pat s"
  by (induction pat s rule: startswith.induct) auto






section \<open>Merging an entry\<close>







section \<open>The description extractor on examples and without statistics\<close>

text \<open>
  Claim C6, as the code has it. On the example text the extractor returns the four
  fragments joined by the entity \<open>&middot;\<close> between two spaces.
\<close>

theorem C6_example_description:
  "extract_description
     ''...Total Tickers: 630... Stock Market: 40/100 - FEAR... Crypto Market: 9/100 - EXTREME FEAR... 50 trades in last 14 days...''
   = ''630 tickers analyzed &middot; Market sentiment: Fear (40/100) &middot; Crypto: Extreme Fear (9/100) &middot; 50 congress trades tracked''"
  by code_simp

text \<open>
  The string of claim C6, with the middle dot (code point 0xB7) as separator, is not what
  is returned.
\<close>

theorem C6_middle_dot_counterexample:
  "extract_description
     ''...Total Tickers: 630... Stock Market: 40/100 - FEAR... Crypto Market: 9/100 - EXTREME FEAR... 50 trades in last 14 days...''
   \<noteq> ''630 tickers analyzed '' @ [CHR 0xB7] @ '' Market sentiment: Fear (40/100) '' @ [CHR 0xB7] @
     '' Crypto: Extreme Fear (9/100) '' @ [CHR 0xB7] @ '' 50 congress trades tracked''"
  by code_simp

text \<open>
  Claim C8. When none of the four patterns matches the text of the input, the extractor
  returns the fixed description. The extractor is a total function to strings: no
  operation in it can raise.
\<close>

theorem C8_fallback:
  assumes "re_search ticker_pattern (strip_markup email_html) = None"
    and "re_search stock_pattern (strip_markup email_html) = None"
    and "re_search crypto_pattern (strip_markup email_html) = None"
    and "re_search trades_pattern (strip_markup email_html) = None"
  shows "extract_description email_html = ''Daily market predictions and analysis''"
  using assms
  by (simp add: extract_description_def ticker_part_def stock_part_def crypto_part_def
      trades_part_def fallback_def)

theorem C8_fallback_witness:
  "re_search ticker_pattern (strip_markup ''<p>Good  morning</p>'') = None
   \<and> re_search stock_pattern (strip_markup ''<p>Good  morning</p>'') = None
   \<and> re_search crypto_pattern (strip_markup ''<p>Good  morning</p>'') = None
   \<and> re_search trades_pattern (strip_markup ''<p>Good  morning</p>'') = None
   \<and> extract_description ''<p>Good  morning</p>'' = ''Daily market predictions and analysis''"
proof -
  have t: "strip_markup ''<p>Good  morning</p>'' = '' Good morning ''"
    by code_simp
  have h1: "re_search ticker_pattern (strip_markup ''<p>Good  morning</p>'') = None"
    unfolding t by code_simp
  have h2: "re_search stock_pattern (strip_markup ''<p>Good  morning</p>'') = None"
    unfolding t by code_simp
  have h3: "re_search crypto_pattern (strip_markup ''<p>Good  morning</p>'') = None"
    unfolding t by code_simp
  have h4: "re_search trades_pattern (strip_markup ''<p>Good  morning</p>'') = None"
    unfolding t by code_simp
  from C8_fallback [OF h1 h2 h3 h4] h1 h2 h3 h4 show ?thesis
    by blast
qed

section \<open>The matcher\<close>

lemma take_str_Nil [simp]: "take_str [] os = os"
  by (induction os) (auto simp: take_str_def)

lemma take_str_Cons [simp]: "take_str (x # u) os = take_str u (take_char x os)"
  by (simp add: take_str_def take_char_def)

lemma take_str_append [simp]: "take_str (u @ v) os = take_str v (take_str u os)"
  by (simp add: take_str_def)

lemma take_str_empty [simp]: "take_str u [] = []"
  by (simp add: take_str_def)

lemma take_str_single [simp]: "take_str u [g] = [rev u @ g]"
  by (simp add: take_str_def)

lemma rmatch_Lit:
  "rmatch (Lit l # r) os gs s =
     (if prefix l s then rmatch r (take_str l os) gs (drop (length l) s) else None)"
proof (induction l arbitrary: os s)
  case Nil
  then show ?case by simp
next
  case (Cons c l)
  show ?case
  proof (cases s)
    case Nil
    then show ?thesis by simp
  next
    case (Cons x s')
    then show ?thesis using Cons.IH [of "take_char x os" s'] by auto
  qed
qed

lemma rmatch_Lit_append [simp]:
  "rmatch (Lit l # r) os gs (l @ s) = rmatch r (take_str l os) gs s"
  by (simp add: rmatch_Lit)

lemma rmatch_None: "(rmatch p os gs s = None) = (\<not> accepts p s)"
proof (induction p os gs s rule: rmatch.induct)
  case (8 c r os gs x s)
  then show ?case
    by (cases "rmatch (Star c True # r) (take_char x os) gs s")
      (auto simp: Let_def Option.is_none_def)
next
  case (10 c r os gs x s)
  then show ?case
    by (cases "rmatch r os gs (x # s)") (auto simp: Let_def Option.is_none_def)
next
  case (11 a b r os gs s)
  then show ?case
    by (cases "rmatch (a @ r) os gs s") (auto simp: Let_def Option.is_none_def)
qed simp_all

lemma rmatch_Some_accepts: "rmatch p os gs s = Some m \<Longrightarrow> accepts p s"
  using rmatch_None [of p os gs s] by auto

lemma accepts_Lit: "accepts (Lit l # r) s = (prefix l s \<and> accepts r (drop (length l) s))"
  using rmatch_Lit [of l r "[]" "[]" s] rmatch_None [of "Lit l # r" "[]" "[]" s]
    rmatch_None [of r "take_str l []" "[]" "drop (length l) s"]
  by (auto split: if_splits)

lemma star_greedy_fwd:
  assumes "list_all c u" and "s = [] \<or> \<not> c (hd s)"
    and "rmatch r (take_str u os) gs s = Some m"
  shows "rmatch (Star c True # r) os gs (u @ s) = Some m"
  using assms
proof (induction u arbitrary: os)
  case Nil
  then show ?case by (cases s) auto
next
  case (Cons a u)
  then show ?case by (simp add: Let_def Option.is_none_def)
qed

lemma star_lazy_fwd:
  assumes "list_all c u" and "\<forall>i<length u. \<not> accepts r (drop i u @ s)"
    and "rmatch r (take_str u os) gs s = Some m"
  shows "rmatch (Star c False # r) os gs (u @ s) = Some m"
  using assms
proof (induction u arbitrary: os)
  case Nil
  then show ?case by (cases s) (auto simp: Let_def Option.is_none_def)
next
  case (Cons a u)
  from Cons.prems(2) have n0: "\<not> accepts r (a # u @ s)"
    by (metis append_Cons drop0 length_greater_0_conv list.distinct(1))
  from Cons.prems(2) have nI: "\<forall>i<length u. \<not> accepts r (drop i u @ s)"
    by (metis Suc_less_eq drop_Suc_Cons length_Cons)
  have "rmatch (Star c False # r) (take_char a os) gs (u @ s) = Some m"
    using Cons.IH [of "take_char a os"] Cons.prems nI by simp
  with n0 Cons.prems(1) show ?case
    by (simp add: Let_def Option.is_none_def rmatch_None)
qed



lemma rmatch_Lit_Some:
  assumes "rmatch (Lit l # r) os gs s = Some m"
  shows "\<exists>s'. s = l @ s' \<and> rmatch r (take_str l os) gs s' = Some m"
proof -
  from assms have p: "prefix l s" and m: "rmatch r (take_str l os) gs (drop (length l) s) = Some m"
    by (auto simp: rmatch_Lit split: if_splits)
  from p obtain s' where "s = l @ s'" by (auto simp: prefix_def)
  with m show ?thesis by auto
qed

lemma rmatch_One_Some:
  assumes "rmatch (One c # r) os gs s = Some m"
  shows "\<exists>x s'. s = x # s' \<and> c x \<and> rmatch r (take_char x os) gs s' = Some m"
  using assms by (cases s) (auto split: if_splits)

section \<open>Searching a string\<close>

lemma str_find_Some:
  "str_find pat s = Some i \<Longrightarrow> prefix pat (drop i s) \<and> i \<le> length s \<and> (\<forall>j<i. \<not> prefix pat (drop j s))"
proof (induction s arbitrary: i)
  case Nil
  then show ?case by (auto split: if_splits)
next
  case (Cons c s)
  show ?case
  proof (cases "prefix pat (c # s)")
    case True
    with Cons.prems show ?thesis by (simp add: startswith_prefix)
  next
    case False
    with Cons.prems obtain i' where i': "str_find pat s = Some i'" "i = Suc i'"
      by (auto simp: startswith_prefix)
    from Cons.IH [OF i'(1)] have ih: "prefix pat (drop i' s)" "i' \<le> length s"
      "\<forall>j<i'. \<not> prefix pat (drop j s)" by auto
    have "\<forall>j<i. \<not> prefix pat (drop j (c # s))"
    proof (intro allI impI)
      fix j assume "j < i"
      then show "\<not> prefix pat (drop j (c # s))"
        using False ih(3) i'(2) by (cases j) auto
    qed
    with ih i' show ?thesis by simp
  qed
qed

lemma str_find_None: "str_find pat s = None \<Longrightarrow> j \<le> length s \<Longrightarrow> \<not> prefix pat (drop j s)"
proof (induction s arbitrary: j)
  case Nil
  then show ?case by (auto split: if_splits)
next
  case (Cons c s)
  from Cons.prems(1) have np: "\<not> prefix pat (c # s)" and n: "str_find pat s = None"
    by (auto simp: startswith_prefix split: if_splits)
  show ?case
  proof (cases j)
    case 0
    with np show ?thesis by simp
  next
    case (Suc j')
    with Cons.prems(2) Cons.IH [OF n, of j'] show ?thesis by simp
  qed
qed

lemma str_find_first:
  "prefix pat (drop i s) \<Longrightarrow> i \<le> length s \<Longrightarrow> (\<forall>j<i. \<not> prefix pat (drop j s)) \<Longrightarrow> str_find pat s = Some i"
proof (induction s arbitrary: i)
  case Nil
  then show ?case by auto
next
  case (Cons c s)
  show ?case
  proof (cases i)
    case 0
    with Cons.prems show ?thesis by (simp add: startswith_prefix)
  next
    case (Suc i')
    with Cons.prems(3) have np: "\<not> prefix pat (c # s)" by (metis drop0 zero_less_Suc)
    have "\<forall>j<i'. \<not> prefix pat (drop j s)"
      using Cons.prems(3) Suc by (metis Suc_less_eq drop_Suc_Cons)
    with Cons.IH [of i'] Cons.prems Suc have "str_find pat s = Some i'" by simp
    with np Suc show ?thesis by (simp add: startswith_prefix)
  qed
qed

lemma str_find_split:
  assumes "str_find pat s = Some i"
  shows "s = take i s @ pat @ drop (i + length pat) s"
proof -
  from str_find_Some [OF assms] obtain r where "drop i s = pat @ r"
    by (auto simp: prefix_def)
  then have "drop (i + length pat) s = r"
    by (metis add.commute append_eq_conv_conj drop_drop)
  with \<open>drop i s = pat @ r\<close> show ?thesis
    by (metis append_take_drop_id)
qed

lemma parse_reversed:
  assumes "str_find ENTRY_START html = Some s" and "str_find ENTRY_END html = Some e" and "e < s"
  shows "parse_existing_entries html = []"
  using assms by (simp add: parse_existing_entries_def slice_def)

lemma generate_single:
  assumes "strptime date_str = Some date_obj"
  shows "generate_entries_html [(date_str, [(''description'', description)])]
    = Inr (month_header_line date_obj @ ''\<newline>'' @ ''\<newline>'' @ generate_card date_str date_obj description)"
  using assms
  by (simp add: generate_entries_html_def sorted_dates_def dict_keys_def dict_get_def)

section \<open>The two markers\<close>

lemma prefix_drop_nth:
  assumes "prefix a (drop i t)" and "k < length a"
  shows "t ! (i + k) = a ! k"
proof -
  from assms(1) obtain r where r: "drop i t = a @ r" by (auto simp: prefix_def)
  with assms(2) have "drop i t \<noteq> []" by auto
  then have "i \<le> length t" by simp
  then have "(drop i t) ! k = t ! (i + k)" by simp
  moreover have "(drop i t) ! k = a ! k" using r assms(2) by (simp add: nth_append)
  ultimately show ?thesis by simp
qed

lemma occ_no_overlap:
  assumes "prefix a (drop i t)" and "prefix b (drop j t)" and "i < j" and "b \<noteq> []"
    and "hd b \<notin> set (tl a)"
  shows "i + length a \<le> j"
proof (rule ccontr)
  assume "\<not> i + length a \<le> j"
  then have k: "j - i < length a" "0 < j - i" using assms(3) by auto
  have "t ! (i + (j - i)) = a ! (j - i)" by (rule prefix_drop_nth [OF assms(1) k(1)])
  moreover have "t ! (j + 0) = b ! 0"
    by (rule prefix_drop_nth [OF assms(2)]) (use assms(4) in simp)
  ultimately have eq: "a ! (j - i) = hd b" using assms(3,4) by (simp add: hd_conv_nth)
  obtain n where n: "j - i = Suc n" using k(2) by (cases "j - i") auto
  then have "n < length (tl a)" using k(1) by simp
  then have "tl a ! n \<in> set (tl a)" by (rule nth_mem)
  moreover have "tl a ! n = a ! (j - i)" using n k(1) by (simp add: nth_tl)
  ultimately show False using assms(5) eq by simp
qed

lemma markers_apart:
  assumes "str_find ENTRY_START html = Some s" and "str_find ENTRY_END html = Some e"
  shows "e < s \<Longrightarrow> e + length ENTRY_END \<le> s" and "s < e \<Longrightarrow> s + length ENTRY_START \<le> e"
proof -
  have ps: "prefix ENTRY_START (drop s html)" using str_find_Some [OF assms(1)] by simp
  have pe: "prefix ENTRY_END (drop e html)" using str_find_Some [OF assms(2)] by simp
  show "e < s \<Longrightarrow> e + length ENTRY_END \<le> s"
    by (rule occ_no_overlap [OF pe ps]) (simp_all add: ENTRY_START_def ENTRY_END_def)
  show "s < e \<Longrightarrow> s + length ENTRY_START \<le> e"
    by (rule occ_no_overlap [OF ps pe]) (simp_all add: ENTRY_START_def ENTRY_END_def)
qed

lemma markers_differ:
  assumes "str_find ENTRY_START html = Some s" and "str_find ENTRY_END html = Some e"
  shows "s \<noteq> e"
proof
  assume "s = e"
  with str_find_Some [OF assms(1)] str_find_Some [OF assms(2)]
  have "prefix ENTRY_START (drop e html)" "prefix ENTRY_END (drop e html)" by auto
  then have "prefix ENTRY_START ENTRY_END \<or> prefix ENTRY_END ENTRY_START"
    by (rule prefix_same_cases)
  then show False by (simp add: ENTRY_START_def ENTRY_END_def)
qed

lemma drop_prefix_split:
  assumes "prefix a (drop i t)" and "i \<le> length t"
  shows "drop i t = a @ drop (i + length a) t" and "i + length a \<le> length t"
proof -
  from assms obtain r where r: "drop i t = a @ r" by (auto simp: prefix_def)
  have "drop (length a) (drop i t) = r" using r by simp
  then have "drop (i + length a) t = r" by (simp add: add.commute)
  with r show "drop i t = a @ drop (i + length a) t" by simp
  have "length (drop i t) = length a + length r" using r by simp
  with assms(2) show "i + length a \<le> length t" by simp
qed

lemma reversed_shape:
  assumes "str_find ENTRY_START html = Some s" and "str_find ENTRY_END html = Some e" and "e < s"
  shows "take (s + length ENTRY_START) html
           = take e html @ ENTRY_END @ slice html (e + length ENTRY_END) s @ ENTRY_START"
    and "drop e html
           = ENTRY_END @ slice html (e + length ENTRY_END) s @ ENTRY_START @ drop (s + length ENTRY_START) html"
proof -
  have le: "e + length ENTRY_END \<le> s" using markers_apart(1) [OF assms(1,2)] assms(3) by simp
  have ps: "prefix ENTRY_START (drop s html)" "s \<le> length html"
    using str_find_Some [OF assms(1)] by simp_all
  have pe: "prefix ENTRY_END (drop e html)" "e \<le> length html"
    using str_find_Some [OF assms(2)] by simp_all
  note s1 = drop_prefix_split [OF ps] and e1 = drop_prefix_split [OF pe]
  have mid: "drop (e + length ENTRY_END) html = slice html (e + length ENTRY_END) s @ drop s html"
  proof -
    have "drop (s - (e + length ENTRY_END)) (drop (e + length ENTRY_END) html) = drop s html"
      using le by simp
    then show ?thesis
      unfolding slice_def
      by (metis append_take_drop_id)
  qed
  show d: "drop e html
           = ENTRY_END @ slice html (e + length ENTRY_END) s @ ENTRY_START @ drop (s + length ENTRY_START) html"
    using e1(1) mid s1(1) by simp
  have "take (s + length ENTRY_START) html = take s html @ ENTRY_START"
  proof -
    have "take (s + length ENTRY_START) html = take s html @ take (length ENTRY_START) (drop s html)"
      by (simp add: take_add)
    also have "take (length ENTRY_START) (drop s html) = ENTRY_START"
      using s1(1) by simp
    finally show ?thesis .
  qed
  moreover have "take s html = take e html @ ENTRY_END @ slice html (e + length ENTRY_END) s"
  proof -
    have "take s html = take e html @ take (s - e) (drop e html)"
      using assms(3) by (metis le_add_diff_inverse less_imp_le_nat take_add)
    also have "take (s - e) (drop e html) = take (s - e) (ENTRY_END @ drop (e + length ENTRY_END) html)"
      using e1(1) by simp
    also have "\<dots> = ENTRY_END @ take (s - (e + length ENTRY_END)) (drop (e + length ENTRY_END) html)"
      using le by (simp add: take_append) 
    finally show ?thesis by (simp add: slice_def)
  qed
  ultimately show "take (s + length ENTRY_START) html
           = take e html @ ENTRY_END @ slice html (e + length ENTRY_END) s @ ENTRY_START"
    by simp
qed

section \<open>What the index update writes\<close>

lemma entry_lines_no_exit: "entry_lines es cur ds \<noteq> Inl (SystemExit n)"
  by (induction ds arbitrary: cur) (auto simp: Let_def split: option.splits sum.splits)

lemma generate_no_exit: "generate_entries_html es \<noteq> Inl (SystemExit n)"
  using entry_lines_no_exit [of es None "sorted_dates es" n]
  by (auto simp: generate_entries_html_def split: sum.splits)

lemma new_html_exit:
  "(new_html date_str description html = Inl (SystemExit n))
     = (n = 1 \<and> (str_find ENTRY_START html = None \<or> str_find ENTRY_END html = None))"
  using generate_no_exit [of "merged_entries date_str description html" n]
  by (auto simp: new_html_def split: option.splits sum.splits)

lemma take_marker:
  assumes "str_find pat html = Some i"
  shows "take (i + length pat) html = take i html @ pat"
    and "drop i html = pat @ drop (i + length pat) html"
proof -
  have p: "prefix pat (drop i html)" "i \<le> length html"
    using str_find_Some [OF assms] by simp_all
  show d: "drop i html = pat @ drop (i + length pat) html"
    by (rule drop_prefix_split(1) [OF p])
  have "take (i + length pat) html = take i html @ take (length pat) (drop i html)"
    by (simp add: take_add)
  also have "take (length pat) (drop i html) = pat"
    using d by (metis append_eq_conv_conj)
  finally show "take (i + length pat) html = take i html @ pat" .
qed

lemma update_index_written:
  assumes "read_text w (INDEX_PATH d) = Some html"
    and "str_find ENTRY_START html = Some s"
    and "str_find ENTRY_END html = Some e"
    and "generate_entries_html (merged_entries date_str description html) = Inr g"
  shows "fst (update_index d date_str description w) = Inr ()"
    and "files (snd (update_index d date_str description w)) (INDEX_PATH d)
           = Some (take s html @ ENTRY_START @ g @ ''\<newline>  '' @ ENTRY_END
                   @ drop (e + length ENTRY_END) html)"
proof -
  have n: "new_html date_str description html
      = Inr (take s html @ ENTRY_START @ g @ ''\<newline>  '' @ ENTRY_END
             @ drop (e + length ENTRY_END) html)"
    using assms(2,3,4) take_marker(1) [OF assms(2)] take_marker(2) [OF assms(3)]
    by (simp add: new_html_def)
  show "fst (update_index d date_str description w) = Inr ()"
    using assms(1) n by (simp add: update_index_def)
  show "files (snd (update_index d date_str description w)) (INDEX_PATH d)
           = Some (take s html @ ENTRY_START @ g @ ''\<newline>  '' @ ENTRY_END
                   @ drop (e + length ENTRY_END) html)"
    using assms(1) n by (simp add: update_index_def print_def write_file_def)
qed

lemma update_index_raised:
  assumes "read_text w (INDEX_PATH d) = Some html"
    and "str_find ENTRY_START html = Some s"
    and "str_find ENTRY_END html = Some e"
    and "generate_entries_html (merged_entries date_str description html) = Inl err"
  shows "update_index d date_str description w = (Inl err, w)"
proof -
  have "new_html date_str description html = Inl err"
    using assms(2,3,4) by (simp add: new_html_def)
  moreover have "\<And>n. err \<noteq> SystemExit n"
    using assms(4) generate_no_exit by metis
  ultimately show ?thesis
    using assms(1) by (cases err) (auto simp: update_index_def)
qed

section \<open>The splice of the index document\<close>

lemma ordered_shape:
  assumes "str_find ENTRY_START html = Some s" and "str_find ENTRY_END html = Some e" and "s < e"
  shows "html = take s html @ ENTRY_START @ slice html (s + length ENTRY_START) e
                @ ENTRY_END @ drop (e + length ENTRY_END) html"
proof -
  have le: "s + length ENTRY_START \<le> e" using markers_apart(2) [OF assms(1,2)] assms(3) by simp
  have "drop (e - (s + length ENTRY_START)) (drop (s + length ENTRY_START) html) = drop e html"
    using le by simp
  then have mid: "drop (s + length ENTRY_START) html
      = slice html (s + length ENTRY_START) e @ drop e html"
    unfolding slice_def by (metis append_take_drop_id)
  have "html = take s html @ drop s html" by simp
  also have "drop s html = ENTRY_START @ drop (s + length ENTRY_START) html"
    by (rule take_marker(2) [OF assms(1)])
  also have "drop (s + length ENTRY_START) html
      = slice html (s + length ENTRY_START) e @ drop e html" by (rule mid)
  also have "drop e html = ENTRY_END @ drop (e + length ENTRY_END) html"
    by (rule take_marker(2) [OF assms(2)])
  finally show ?thesis .
qed

lemma cr_text: "universal_newlines cr_doc = ''a\<newline><!-- DAILY-ENTRIES -->b<!-- /DAILY-ENTRIES -->c''"
  by (simp add: cr_doc_def)

lemma cr_start: "str_find ENTRY_START (universal_newlines cr_doc) = Some 2"
  by (simp add: cr_text ENTRY_START_def)

lemma cr_end: "str_find ENTRY_END (universal_newlines cr_doc) = Some 25"
  by (simp add: cr_text ENTRY_END_def)

lemma cr_index: "files (run_world cr_doc) (INDEX_PATH ''/site'') = Some cr_doc"
  by (simp add: run_world_def)

lemma cr_generate:
  "\<exists>g. generate_entries_html (merged_entries ''2026-02-18'' ''x'' (universal_newlines cr_doc)) = Inr g"
proof -
  have "parse_existing_entries (universal_newlines cr_doc) = []"
    unfolding cr_text by code_simp
  then show ?thesis
    using generate_single [OF strptime_example, of "''x''"]
    by (simp add: merged_entries_def merge_entry_def)
qed

lemma cr_written:
  "fst (update_index ''/site'' ''2026-02-18'' ''x'' (run_world cr_doc)) = Inr ()"
  "\<exists>g. files (snd (update_index ''/site'' ''2026-02-18'' ''x'' (run_world cr_doc))) (INDEX_PATH ''/site'')
     = Some (''a\<newline>'' @ ENTRY_START @ g @ ''\<newline>  '' @ ENTRY_END @ ''c'')"
proof -
  obtain g where g: "generate_entries_html
      (merged_entries ''2026-02-18'' ''x'' (universal_newlines cr_doc)) = Inr g"
    using cr_generate by blast
  have r: "read_text (run_world cr_doc) (INDEX_PATH ''/site'') = Some (universal_newlines cr_doc)"
    using cr_index by (simp add: read_text_def)
  note u = update_index_written [OF r cr_start cr_end g]
  show "fst (update_index ''/site'' ''2026-02-18'' ''x'' (run_world cr_doc)) = Inr ()"
    by (rule u(1))
  have "take 2 (universal_newlines cr_doc) = ''a\<newline>''"
    "drop (25 + length ENTRY_END) (universal_newlines cr_doc) = ''c''"
    by (simp_all add: cr_text ENTRY_END_def)
  with u(2) show "\<exists>g. files (snd (update_index ''/site'' ''2026-02-18'' ''x'' (run_world cr_doc))) (INDEX_PATH ''/site'')
     = Some (''a\<newline>'' @ ENTRY_START @ g @ ''\<newline>  '' @ ENTRY_END @ ''c'')"
    by auto
qed

text \<open>
  Claim C3 (amended). \<^verbatim>\<open>update_index\<close> opens the index file in text mode, so the
  document it works on is the content of the file with every CR LF and every lone CR read
  as LF.  For every index file whose text, read this way, contains both markers (\<open>s\<close> and
  \<open>e\<close> the positions of their first occurrences): either the regenerated region \<open>g\<close> is
  produced, \<^verbatim>\<open>update_index\<close> returns normally and the file then holds the text before the
  start marker, the start marker, \<open>g\<close>, a newline and two spaces, the end marker, and the
  text after the end marker; or \<^verbatim>\<open>generate_entries_html\<close> raises, the error propagates and
  the file is left as it was.  When the start marker comes first, the text read is the
  same head, start marker, old region, end marker and the same tail, so only the region
  strictly between the markers is rewritten.  This holds of the text as read, not of the
  bytes of the file.
\<close>

theorem C3_splice_text:
  assumes "files w (INDEX_PATH d) = Some raw"
    and "str_find ENTRY_START (universal_newlines raw) = Some s"
    and "str_find ENTRY_END (universal_newlines raw) = Some e"
  shows "((\<exists>g. generate_entries_html
               (merged_entries date_str description (universal_newlines raw)) = Inr g
            \<and> fst (update_index d date_str description w) = Inr ()
            \<and> files (snd (update_index d date_str description w)) (INDEX_PATH d)
                = Some (take s (universal_newlines raw) @ ENTRY_START @ g @ ''\<newline>  ''
                        @ ENTRY_END @ drop (e + length ENTRY_END) (universal_newlines raw)))
       \<or> (\<exists>err. generate_entries_html
               (merged_entries date_str description (universal_newlines raw)) = Inl err
            \<and> fst (update_index d date_str description w) = Inl err
            \<and> files (snd (update_index d date_str description w)) (INDEX_PATH d) = Some raw))
     \<and> (s < e \<longrightarrow> universal_newlines raw
            = take s (universal_newlines raw) @ ENTRY_START
              @ slice (universal_newlines raw) (s + length ENTRY_START) e
              @ ENTRY_END @ drop (e + length ENTRY_END) (universal_newlines raw))"
proof -
  have r: "read_text w (INDEX_PATH d) = Some (universal_newlines raw)"
    using assms(1) by (simp add: read_text_def)
  have shape: "s < e \<longrightarrow> universal_newlines raw
            = take s (universal_newlines raw) @ ENTRY_START
              @ slice (universal_newlines raw) (s + length ENTRY_START) e
              @ ENTRY_END @ drop (e + length ENTRY_END) (universal_newlines raw)"
    using ordered_shape [OF assms(2,3)] by blast
  show ?thesis
  proof (cases "generate_entries_html
               (merged_entries date_str description (universal_newlines raw))")
    case (Inl err)
    from update_index_raised [OF r assms(2,3) Inl] assms(1) Inl shape show ?thesis by simp
  next
    case (Inr g)
    from update_index_written [OF r assms(2,3) Inr] Inr shape show ?thesis by simp
  qed
qed

theorem C3_splice_text_witness:
  "files (run_world cr_doc) (INDEX_PATH ''/site'') = Some cr_doc
   \<and> str_find ENTRY_START (universal_newlines cr_doc) = Some 2
   \<and> str_find ENTRY_END (universal_newlines cr_doc) = Some 25
   \<and> (2::nat) < 25
   \<and> (\<exists>g. fst (update_index ''/site'' ''2026-02-18'' ''x'' (run_world cr_doc)) = Inr ()
         \<and> files (snd (update_index ''/site'' ''2026-02-18'' ''x'' (run_world cr_doc)))
              (INDEX_PATH ''/site'')
            = Some (take 2 (universal_newlines cr_doc) @ ENTRY_START @ g @ ''\<newline>  ''
                    @ ENTRY_END @ drop (25 + length ENTRY_END) (universal_newlines cr_doc)))
   \<and> universal_newlines cr_doc
       = take 2 (universal_newlines cr_doc) @ ENTRY_START
         @ slice (universal_newlines cr_doc) (2 + length ENTRY_START) 25
         @ ENTRY_END @ drop (25 + length ENTRY_END) (universal_newlines cr_doc)"
proof -
  note c = C3_splice_text [OF cr_index cr_start cr_end, of "''2026-02-18''" "''x''"]
  have "fst (update_index ''/site'' ''2026-02-18'' ''x'' (run_world cr_doc)) = Inr ()"
    by (rule cr_written(1))
  with c have "\<exists>g. fst (update_index ''/site'' ''2026-02-18'' ''x'' (run_world cr_doc)) = Inr ()
         \<and> files (snd (update_index ''/site'' ''2026-02-18'' ''x'' (run_world cr_doc)))
              (INDEX_PATH ''/site'')
            = Some (take 2 (universal_newlines cr_doc) @ ENTRY_START @ g @ ''\<newline>  ''
                    @ ENTRY_END @ drop (25 + length ENTRY_END) (universal_newlines cr_doc))"
    by auto
  moreover from c have "universal_newlines cr_doc
       = take 2 (universal_newlines cr_doc) @ ENTRY_START
         @ slice (universal_newlines cr_doc) (2 + length ENTRY_START) 25
         @ ENTRY_END @ drop (25 + length ENTRY_END) (universal_newlines cr_doc)"
    by simp
  ultimately show ?thesis using cr_index cr_start cr_end by simp
qed

text \<open>
  The claim as the spec words it, on bytes, fails: in the file \<^verbatim>\<open>a\r\n\<close>, start marker,
  \<^verbatim>\<open>b\<close>, end marker, \<^verbatim>\<open>c\<close> the bytes up to and including the start marker are no longer
  the beginning of the file after a successful update (the CR is gone).
\<close>

theorem C3_carriage_return_counterexample:
  "files (run_world cr_doc) (INDEX_PATH ''/site'') = Some cr_doc
   \<and> prefix (''a'' @ [CHR 0x0D, CHR 0x0A] @ ENTRY_START) cr_doc
   \<and> fst (update_index ''/site'' ''2026-02-18'' ''x'' (run_world cr_doc)) = Inr ()
   \<and> (\<exists>new. files (snd (update_index ''/site'' ''2026-02-18'' ''x'' (run_world cr_doc)))
               (INDEX_PATH ''/site'') = Some new
          \<and> \<not> prefix (''a'' @ [CHR 0x0D, CHR 0x0A] @ ENTRY_START) new)"
proof -
  have p: "prefix (''a'' @ [CHR 0x0D, CHR 0x0A] @ ENTRY_START) cr_doc"
    by (simp add: cr_doc_def ENTRY_START_def)
  from cr_written(2) obtain g where
    "files (snd (update_index ''/site'' ''2026-02-18'' ''x'' (run_world cr_doc))) (INDEX_PATH ''/site'')
     = Some (''a\<newline>'' @ ENTRY_START @ g @ ''\<newline>  '' @ ENTRY_END @ ''c'')"
    by blast
  moreover have "\<not> prefix (''a'' @ [CHR 0x0D, CHR 0x0A] @ ENTRY_START)
      (''a\<newline>'' @ ENTRY_START @ g @ ''\<newline>  '' @ ENTRY_END @ ''c'')"
    by simp
  ultimately show ?thesis using cr_index p cr_written(1) by blast
qed

section \<open>Markers in reverse order\<close>

text \<open>
  Claim C10. In the text read from the index file let the first end marker come before
  the first start marker, and let the
  date be one that \<open>strptime\<close> accepts (as \<open>main\<close> has checked before it calls
  \<open>update_index\<close>). Then no entry is recovered, \<open>update_index\<close> returns normally, and
  the file it writes holds the text from the end marker to the start marker twice: once
  before the new region and once behind it.
\<close>

theorem C10_reversed_markers:
  assumes "read_text w (INDEX_PATH d) = Some html"
    and "str_find ENTRY_START html = Some s"
    and "str_find ENTRY_END html = Some e"
    and "e < s"
    and "strptime date_str = Some date_obj"
  shows "\<exists>g. generate_entries_html [(date_str, [(''description'', description)])] = Inr g
       \<and> html = take e html @ (ENTRY_END @ slice html (e + length ENTRY_END) s @ ENTRY_START)
                  @ drop (s + length ENTRY_START) html
       \<and> fst (update_index d date_str description w) = Inr ()
       \<and> files (snd (update_index d date_str description w)) (INDEX_PATH d)
           = Some (take e html @ (ENTRY_END @ slice html (e + length ENTRY_END) s @ ENTRY_START)
                   @ g @ ''\<newline>  ''
                   @ (ENTRY_END @ slice html (e + length ENTRY_END) s @ ENTRY_START)
                   @ drop (s + length ENTRY_START) html)"
proof -
  let ?mid = "ENTRY_END @ slice html (e + length ENTRY_END) s @ ENTRY_START"
  obtain g where g: "generate_entries_html [(date_str, [(''description'', description)])] = Inr g"
    using generate_single [OF assms(5)] by blast
  have m: "merged_entries date_str description html = [(date_str, [(''description'', description)])]"
    using parse_reversed [OF assms(2,3,4)] by (simp add: merged_entries_def merge_entry_def)
  note sh = reversed_shape [OF assms(2,3,4)]
  have n: "new_html date_str description html
      = Inr (take e html @ ?mid @ g @ ''\<newline>  '' @ ?mid @ drop (s + length ENTRY_START) html)"
    using assms(2,3) g m sh by (simp add: new_html_def)
  have h: "html = take e html @ ?mid @ drop (s + length ENTRY_START) html"
    using sh(2) by (metis append.assoc append_take_drop_id)
  from n assms(1) have
    "fst (update_index d date_str description w) = Inr ()"
    "files (snd (update_index d date_str description w)) (INDEX_PATH d)
       = Some (take e html @ ?mid @ g @ ''\<newline>  '' @ ?mid @ drop (s + length ENTRY_START) html)"
    by (simp_all add: update_index_def print_def write_file_def)
  with g h show ?thesis by blast
qed

theorem C10_reversed_markers_witness:
  "read_text \<lparr>files = [INDEX_PATH ''/site'' \<mapsto> ''a<!-- /DAILY-ENTRIES -->b<!-- DAILY-ENTRIES -->c''],
          out = [], cwd = []\<rparr> (INDEX_PATH ''/site'')
     = Some ''a<!-- /DAILY-ENTRIES -->b<!-- DAILY-ENTRIES -->c''
   \<and> str_find ENTRY_START ''a<!-- /DAILY-ENTRIES -->b<!-- DAILY-ENTRIES -->c'' = Some 25
   \<and> str_find ENTRY_END ''a<!-- /DAILY-ENTRIES -->b<!-- DAILY-ENTRIES -->c'' = Some 1
   \<and> (1::nat) < 25
   \<and> strptime ''2026-02-18'' = Some \<lparr>year = 2026, month = 2, day = 18\<rparr>
   \<and> (\<exists>g. fst (update_index ''/site'' ''2026-02-18'' ''630 tickers analyzed''
                 \<lparr>files = [INDEX_PATH ''/site'' \<mapsto> ''a<!-- /DAILY-ENTRIES -->b<!-- DAILY-ENTRIES -->c''],
                  out = [], cwd = []\<rparr>) = Inr ()
        \<and> files (snd (update_index ''/site'' ''2026-02-18'' ''630 tickers analyzed''
                 \<lparr>files = [INDEX_PATH ''/site'' \<mapsto> ''a<!-- /DAILY-ENTRIES -->b<!-- DAILY-ENTRIES -->c''],
                  out = [], cwd = []\<rparr>)) (INDEX_PATH ''/site'')
          = Some (''a'' @ ''<!-- /DAILY-ENTRIES -->b<!-- DAILY-ENTRIES -->'' @ g @ ''\<newline>  ''
                  @ ''<!-- /DAILY-ENTRIES -->b<!-- DAILY-ENTRIES -->'' @ ''c''))"
proof -
  have f: "read_text \<lparr>files = [INDEX_PATH ''/site'' \<mapsto> ''a<!-- /DAILY-ENTRIES -->b<!-- DAILY-ENTRIES -->c''],
          out = [], cwd = []\<rparr> (INDEX_PATH ''/site'')
     = Some ''a<!-- /DAILY-ENTRIES -->b<!-- DAILY-ENTRIES -->c''"
    by (simp add: read_text_def)
  have s: "str_find ENTRY_START ''a<!-- /DAILY-ENTRIES -->b<!-- DAILY-ENTRIES -->c'' = Some 25"
    by (simp add: ENTRY_START_def)
  have e: "str_find ENTRY_END ''a<!-- /DAILY-ENTRIES -->b<!-- DAILY-ENTRIES -->c'' = Some 1"
    by (simp add: ENTRY_END_def)
  have l: "(1::nat) < 25" by simp
  from C10_reversed_markers [OF f s e l strptime_example, of "''630 tickers analyzed''"]
  obtain g where "fst (update_index ''/site'' ''2026-02-18'' ''630 tickers analyzed''
                 \<lparr>files = [INDEX_PATH ''/site'' \<mapsto> ''a<!-- /DAILY-ENTRIES -->b<!-- DAILY-ENTRIES -->c''],
                  out = [], cwd = []\<rparr>) = Inr ()"
     "files (snd (update_index ''/site'' ''2026-02-18'' ''630 tickers analyzed''
                 \<lparr>files = [INDEX_PATH ''/site'' \<mapsto> ''a<!-- /DAILY-ENTRIES -->b<!-- DAILY-ENTRIES -->c''],
                  out = [], cwd = []\<rparr>)) (INDEX_PATH ''/site'')
          = Some (''a'' @ ''<!-- /DAILY-ENTRIES -->b<!-- DAILY-ENTRIES -->'' @ g @ ''\<newline>  ''
                  @ ''<!-- /DAILY-ENTRIES -->b<!-- DAILY-ENTRIES -->'' @ ''c'')"
    by (auto simp: ENTRY_START_def ENTRY_END_def slice_def)
  with f s e l strptime_example show ?thesis by blast
qed

section \<open>A date that is accepted and then lost\<close>

text \<open>
  Claim C9. The date \<open>2026-2-8\<close> is accepted by \<open>strptime\<close>. Published into an empty
  marker region it gives a card whose link the card pattern does not match, so that no
  entry is recovered from the new document. And the keys \<open>2026-2-8\<close> and \<open>2026-10-01\<close>
  are sorted with the eighth of February before the first of October.
\<close>

theorem C9_unpadded_date:
  "strptime ''2026-2-8'' = Some \<lparr>year = 2026, month = 2, day = 8\<rparr>
   \<and> new_html ''2026-2-8'' ''x'' ''<!-- DAILY-ENTRIES --><!-- /DAILY-ENTRIES -->'' = Inr unpadded_doc
   \<and> parse_existing_entries unpadded_doc = []
   \<and> sorted_dates [(''2026-10-01'', [(''description'', ''a'')]),
                    (''2026-2-8'', [(''description'', ''b'')])]
       = [''2026-2-8'', ''2026-10-01'']
   \<and> strptime ''2026-10-01'' = Some \<lparr>year = 2026, month = 10, day = 1\<rparr>"
proof -
  have a: "strptime ''2026-2-8'' = Some \<lparr>year = 2026, month = 2, day = 8\<rparr>"
    by (simp add: date_evals)
  have b: "new_html ''2026-2-8'' ''x'' ''<!-- DAILY-ENTRIES --><!-- /DAILY-ENTRIES -->''
      = Inr unpadded_doc"
    by (simp add: index_evals gen_evals date_evals unpadded_doc_def)
  have c: "parse_existing_entries unpadded_doc = []"
    by code_simp
  have d: "sorted_dates [(''2026-10-01'', [(''description'', ''a'')]),
                         (''2026-2-8'', [(''description'', ''b'')])]
      = [''2026-2-8'', ''2026-10-01'']"
    by (simp add: sorted_dates_def dict_keys_def)
  have e: "strptime ''2026-10-01'' = Some \<lparr>year = 2026, month = 10, day = 1\<rparr>"
    by (simp add: date_evals)
  from a b c d e show ?thesis by blast
qed

section \<open>The ticker count\<close>






section \<open>Dates in the form of the card pattern\<close>

lemma iso_date_shape:
  assumes "iso_date k"
  shows "\<exists>a b c d e f g h. k = [a, b, c, d, CHR ''-'', e, f, CHR ''-'', g, h]
            \<and> isdigit a \<and> isdigit b \<and> isdigit c \<and> isdigit d \<and> isdigit e \<and> isdigit f
            \<and> isdigit g \<and> isdigit h"
proof -
  from assms have "rmatch (One isdigit # One isdigit # One isdigit # One isdigit # Lit ''-''
      # One isdigit # One isdigit # Lit ''-'' # One isdigit # [One isdigit]) [] [] k = Some ([], [])"
    by (simp add: iso_date_def date_pattern_def digits4_def digits2_def)
  from rmatch_One_Some [OF this] obtain a s1 where a: "k = a # s1" "isdigit a"
    and "rmatch (One isdigit # One isdigit # One isdigit # Lit ''-''
      # One isdigit # One isdigit # Lit ''-'' # One isdigit # [One isdigit]) (take_char a []) [] s1 = Some ([], [])"
    by blast
  from rmatch_One_Some [OF this(3)] obtain b s2 where b: "s1 = b # s2" "isdigit b"
    and "rmatch (One isdigit # One isdigit # Lit ''-''
      # One isdigit # One isdigit # Lit ''-'' # One isdigit # [One isdigit]) (take_char b (take_char a [])) [] s2 = Some ([], [])"
    by blast
  from rmatch_One_Some [OF this(3)] obtain c s3 where c: "s2 = c # s3" "isdigit c"
    and "rmatch (One isdigit # Lit ''-''
      # One isdigit # One isdigit # Lit ''-'' # One isdigit # [One isdigit]) (take_char c (take_char b (take_char a []))) [] s3 = Some ([], [])"
    by blast
  from rmatch_One_Some [OF this(3)] obtain d s4 where d: "s3 = d # s4" "isdigit d"
    and "rmatch (Lit ''-''
      # One isdigit # One isdigit # Lit ''-'' # One isdigit # [One isdigit]) (take_char d (take_char c (take_char b (take_char a [])))) [] s4 = Some ([], [])"
    by blast
  from rmatch_Lit_Some [OF this(3)] obtain s5 where s5: "s4 = ''-'' @ s5"
    and "rmatch (One isdigit # One isdigit # Lit ''-'' # One isdigit # [One isdigit]) (take_str ''-'' (take_char d (take_char c (take_char b (take_char a []))))) [] s5 = Some ([], [])"
    by blast
  from rmatch_One_Some [OF this(2)] obtain e s6 where e: "s5 = e # s6" "isdigit e"
    and "rmatch (One isdigit # Lit ''-'' # One isdigit # [One isdigit]) (take_char e (take_str ''-'' (take_char d (take_char c (take_char b (take_char a [])))))) [] s6 = Some ([], [])"
    by blast
  from rmatch_One_Some [OF this(3)] obtain f s7 where f: "s6 = f # s7" "isdigit f"
    and "rmatch (Lit ''-'' # One isdigit # [One isdigit]) (take_char f (take_char e (take_str ''-'' (take_char d (take_char c (take_char b (take_char a []))))))) [] s7 = Some ([], [])"
    by blast
  from rmatch_Lit_Some [OF this(3)] obtain s8 where s8: "s7 = ''-'' @ s8"
    and "rmatch (One isdigit # [One isdigit]) (take_str ''-'' (take_char f (take_char e (take_str ''-'' (take_char d (take_char c (take_char b (take_char a [])))))))) [] s8 = Some ([], [])"
    by blast
  from rmatch_One_Some [OF this(2)] obtain g s9 where g: "s8 = g # s9" "isdigit g"
    and "rmatch [One isdigit] (take_char g (take_str ''-'' (take_char f (take_char e (take_str ''-'' (take_char d (take_char c (take_char b (take_char a []))))))))) [] s9 = Some ([], [])"
    by blast
  from rmatch_One_Some [OF this(3)] obtain h s10 where h: "s9 = h # s10" "isdigit h"
    and "rmatch [] (take_char h (take_char g (take_str ''-'' (take_char f (take_char e (take_str ''-'' (take_char d (take_char c (take_char b (take_char a [])))))))))) [] s10 = Some ([], [])"
    by blast
  then have "s10 = []" by simp
  with a b c d s5 e f s8 g h show ?thesis by simp
qed

lemma iso_dateI:
  assumes "isdigit a" "isdigit b" "isdigit c" "isdigit d" "isdigit e" "isdigit f" "isdigit g" "isdigit h"
  shows "iso_date [a, b, c, d, CHR ''-'', e, f, CHR ''-'', g, h]"
  using assms by (simp add: iso_date_def date_pattern_def digits4_def digits2_def)

lemma digit_not_space: "isdigit c \<Longrightarrow> \<not> isspace c"
  by (auto simp: isdigit_def isspace_def space_chars_def)

lemma digit_not_dash: "isdigit c \<Longrightarrow> c \<noteq> CHR ''-''"
  by (auto simp: isdigit_def)

lemma int_of_str4:
  assumes "isdigit a" "isdigit d"
  shows "int_of_str [a, b, c, d] = 1000 * digit_val a + 100 * digit_val b + 10 * digit_val c + digit_val d"
  using assms by (simp add: int_of_str_def str_strip_def digit_not_space)

lemma int_of_str2:
  assumes "isdigit a" "isdigit b"
  shows "int_of_str [a, b] = 10 * digit_val a + digit_val b"
  using assms by (simp add: int_of_str_def str_strip_def digit_not_space)

lemma strptime_iso_match:
  assumes "isdigit a" "isdigit b" "isdigit c" "isdigit d" "isdigit e" "isdigit f" "isdigit g" "isdigit h"
    and "rmatch strptime_pattern [] [] [a, b, c, d, CHR ''-'', e, f, CHR ''-'', g, h] = Some (gs, rest)"
    and "rest = []"
  shows "gs = [[a, b, c, d], [e, f], [g, h]]"
  using assms
  by (simp add: strptime_pattern_def digits4_def Let_def Option.is_none_def take_char_def
      digit_not_dash split: if_splits)

end
